theory Spec2Isabelle
  imports Main "HOL-Library.Word" "HOL-Library.Char_ord" "HOL-Library.List_Lexorder"
    "HOL-Library.Multiset"
begin

section \<open>Python strings\<close>

text \<open>
  A Python \<open>str\<close> is a sequence of code points. It is modelled as a \<open>string\<close> in which
  every \<open>char\<close> stands for one code point of the range U+0000..U+00FF (Basic Latin and
  Latin-1 Supplement), so \<open>length\<close> is Python's \<open>len\<close>, and the character classes below
  are those of CPython on that range. The letter \<open>e\<close> with acute accent of the schema's
  field names is \<open>CHR 0xE9\<close>.
\<close>

definition apos :: string where
  "apos = [CHR 0x27]"

definition e_acute :: string where
  "e_acute = [CHR 0xE9]"

definition e_grave :: string where
  "e_grave = [CHR 0xE8]"

definition e_circ :: string where
  "e_circ = [CHR 0xEA]"

definition a_grave :: string where
  "a_grave = [CHR 0xE0]"

definition c_cedil :: string where
  "c_cedil = [CHR 0xE7]"

text \<open>\<open>str.isspace\<close>, which is also the class \<open>\s\<close> of \<open>re\<close> and the separator
  class of \<open>str.split()\<close> and \<open>str.strip()\<close>.\<close>

definition isspace :: "char \<Rightarrow> bool" where
  "isspace c = (let n = (of_char c :: nat) in
     (9 \<le> n \<and> n \<le> 13) \<or> (28 \<le> n \<and> n \<le> 32) \<or> n = 133 \<or> n = 160)"

text \<open>The ASCII digits \<open>0\<close>..\<open>9\<close>: the characters \<open>int()\<close> reads as decimal digits.\<close>

definition isdecimal :: "char \<Rightarrow> bool" where
  "isdecimal c = (let n = (of_char c :: nat) in 48 \<le> n \<and> n \<le> 57)"

text \<open>\<open>str.isdigit\<close> on one character: the ASCII digits and the superscript digits
  two, three and one (U+00B2, U+00B3, U+00B9).\<close>

definition isdigit_char :: "char \<Rightarrow> bool" where
  "isdigit_char c = (let n = (of_char c :: nat) in
     (48 \<le> n \<and> n \<le> 57) \<or> n = 178 \<or> n = 179 \<or> n = 185)"

text \<open>\<open>s.isdigit()\<close>: false on the empty string.\<close>

definition isdigit :: "string \<Rightarrow> bool" where
  "isdigit s = (s \<noteq> [] \<and> list_all isdigit_char s)"

text \<open>The class \<open>[a-zA-Z]\<close> of the regular expressions.\<close>

definition is_ascii_letter :: "char \<Rightarrow> bool" where
  "is_ascii_letter c = (let n = (of_char c :: nat) in
     (65 \<le> n \<and> n \<le> 90) \<or> (97 \<le> n \<and> n \<le> 122))"

text \<open>The class \<open>\w\<close> of \<open>re\<close> on a \<open>str\<close> pattern: \<open>str.isalnum\<close> or the underscore.\<close>

definition is_word_char :: "char \<Rightarrow> bool" where
  "is_word_char c = (let n = (of_char c :: nat) in
     (48 \<le> n \<and> n \<le> 57) \<or> (65 \<le> n \<and> n \<le> 90) \<or> n = 95 \<or> (97 \<le> n \<and> n \<le> 122) \<or>
     n = 170 \<or> n = 178 \<or> n = 179 \<or> n = 181 \<or> n = 185 \<or> n = 186 \<or>
     (188 \<le> n \<and> n \<le> 190) \<or> (192 \<le> n \<and> n \<le> 214) \<or> (216 \<le> n \<and> n \<le> 246) \<or>
     (248 \<le> n \<and> n \<le> 255))"

text \<open>\<open>s.strip()\<close>.\<close>

definition strip :: "string \<Rightarrow> string" where
  "strip s = rev (dropWhile isspace (rev (dropWhile isspace s)))"

text \<open>\<open>s.split()\<close>: the maximal runs of characters that are not whitespace. The first
  argument is the run read so far.\<close>

fun split_from :: "string \<Rightarrow> string \<Rightarrow> string list" where
  "split_from cur [] = (if cur = [] then [] else [cur])"
| "split_from cur (c # cs) =
     (if isspace c then (if cur = [] then split_from [] cs else cur # split_from [] cs)
      else split_from (cur @ [c]) cs)"

definition split :: "string \<Rightarrow> string list" where
  "split s = split_from [] s"

text \<open>\<open>s.replace(old, new)\<close> for one-character \<open>old\<close> and \<open>new\<close>.\<close>

definition replace_char :: "char \<Rightarrow> char \<Rightarrow> string \<Rightarrow> string" where
  "replace_char old new s = map (\<lambda>c. if c = old then new else c) s"

text \<open>\<open>sub in s\<close> on strings.\<close>

fun contains :: "string \<Rightarrow> string \<Rightarrow> bool" where
  "contains sub [] = (sub = [])"
| "contains sub (c # cs) = (take (length sub) (c # cs) = sub \<or> contains sub cs)"

text \<open>\<open>str(n)\<close> of a natural number and of an integer.\<close>

definition digit_char :: "nat \<Rightarrow> char" where
  "digit_char d = char_of (48 + d)"

fun str_nat :: "nat \<Rightarrow> string" where
  "str_nat n = (if n < 10 then [digit_char n] else str_nat (n div 10) @ [digit_char (n mod 10)])"

definition str_int :: "int \<Rightarrow> string" where
  "str_int i = (if i < 0 then CHR ''-'' # str_nat (nat (- i)) else str_nat (nat i))"

text \<open>
  \<open>int(s)\<close> in base ten: surrounding whitespace is dropped, one sign is allowed, and the
  digits may be grouped by single underscores. \<open>None\<close> is the \<open>ValueError\<close>, which CPython
  also raises for more than 4300 digits.
\<close>

definition digit_val :: "char \<Rightarrow> nat" where
  "digit_val c = of_char c - 48"

fun int_digits :: "string \<Rightarrow> nat list option" where
  "int_digits [] = None"
| "int_digits [c] = (if isdecimal c then Some [digit_val c] else None)"
| "int_digits (c # d # r) =
     (if \<not> isdecimal c then None
      else if d = CHR ''_'' then map_option (Cons (digit_val c)) (int_digits r)
      else map_option (Cons (digit_val c)) (int_digits (d # r)))"

definition digits_value :: "nat list \<Rightarrow> nat" where
  "digits_value ds = foldl (\<lambda>a d. 10 * a + d) 0 ds"

definition py_int :: "string \<Rightarrow> int option" where
  "py_int s =
     (let t = strip s;
          neg = (t \<noteq> [] \<and> hd t = CHR ''-'');
          body = (if t \<noteq> [] \<and> (hd t = CHR ''-'' \<or> hd t = CHR ''+'') then tl t else t)
      in case int_digits body of
           None \<Rightarrow> None
         | Some ds \<Rightarrow>
             if length ds > 4300 then None
             else Some (if neg then - int (digits_value ds) else int (digits_value ds)))"

text \<open>
  \<open>datetime(year, month, day)\<close> returns for the dates of the proleptic Gregorian calendar
  of the years 1 to 9999 and raises otherwise.
\<close>

definition is_leap :: "int \<Rightarrow> bool" where
  "is_leap y = (y mod 4 = 0 \<and> (y mod 100 \<noteq> 0 \<or> y mod 400 = 0))"

definition days_in_month :: "int \<Rightarrow> int \<Rightarrow> int" where
  "days_in_month y m =
     (if m = 2 then (if is_leap y then 29 else 28)
      else if m = 4 \<or> m = 6 \<or> m = 9 \<or> m = 11 then 30 else 31)"

definition datetime_ok :: "int \<Rightarrow> int \<Rightarrow> int \<Rightarrow> bool" where
  "datetime_ok y m d =
     (1 \<le> y \<and> y \<le> 9999 \<and> 1 \<le> m \<and> m \<le> 12 \<and> 1 \<le> d \<and> d \<le> days_in_month y m)"

section \<open>Raw values and floating-point numbers\<close>

text \<open>
  The built-in \<open>float(s)\<close>, the \<open>repr\<close> of a float and the text that \<open>json\<close> writes
  for a float (its \<open>repr\<close> when it is finite, \<open>NaN\<close>, \<open>Infinity\<close> or \<open>-Infinity\<close>
  otherwise) are not code of the repository: they are parameters of the model.
  \<open>float_of s = None\<close> is the \<open>ValueError\<close> of \<open>float(s)\<close>.
\<close>

record 'f float_ops =
  float_of :: "string \<Rightarrow> 'f option"
  repr_of :: "'f \<Rightarrow> string"
  json_of :: "'f \<Rightarrow> string"

text \<open>The \<open>wrappedValue\<close> of a property: a string or a number.\<close>

datatype 'f raw = RStr string | RInt int | RFloat 'f

text \<open>\<open>str(valeur)\<close>.\<close>

fun py_str :: "'f float_ops \<Rightarrow> 'f raw \<Rightarrow> string" where
  "py_str F (RStr s) = s"
| "py_str F (RInt i) = str_int i"
| "py_str F (RFloat x) = repr_of F x"

text \<open>The second component of the result of \<open>valider_format\<close>, and the values of a
  record: a string (a canonical value or a message) or a float.\<close>

datatype 'f valeur = VStr string | VFloat 'f

section \<open>IFC_extractor_5.4.py: valider_format\<close>

definition msg_manquante :: "string \<Rightarrow> string" where
  "msg_manquante nom = ''La propri'' @ e_acute @ ''t'' @ e_acute @ '' '' @ apos @ nom @ apos @
     '' est manquante ou nulle''"

definition msg_chiffres :: "string \<Rightarrow> string \<Rightarrow> string" where
  "msg_chiffres nom valeur_str = apos @ nom @ apos @
     '' doit contenir uniquement des chiffres, re'' @ c_cedil @ ''u: '' @ apos @ valeur_str @ apos"

definition msg_longueur :: "string \<Rightarrow> nat \<Rightarrow> nat \<Rightarrow> string" where
  "msg_longueur nom n len = apos @ nom @ apos @ '' doit contenir exactement '' @ str_nat n @
     '' chiffres, re'' @ c_cedil @ ''u: '' @ str_nat len @ '' chiffres''"

definition msg_lettres :: "string \<Rightarrow> string \<Rightarrow> string" where
  "msg_lettres nom valeur_str = apos @ nom @ apos @
     '' doit contenir des lettres, re'' @ c_cedil @ ''u: '' @ apos @ valeur_str @ apos"

definition msg_nombre :: "string \<Rightarrow> string \<Rightarrow> string" where
  "msg_nombre nom valeur_str = apos @ nom @ apos @ '' doit '' @ e_circ @ ''tre un nombre, re'' @
     c_cedil @ ''u: '' @ apos @ valeur_str @ apos"

definition msg_date_format :: "string \<Rightarrow> string \<Rightarrow> string" where
  "msg_date_format nom valeur_str = apos @ nom @ apos @ '' doit '' @ e_circ @
     ''tre au format JJ MM AAAA, re'' @ c_cedil @ ''u: '' @ apos @ valeur_str @ apos"

definition msg_date_invalide :: "string \<Rightarrow> string \<Rightarrow> string" where
  "msg_date_invalide nom valeur_str = apos @ nom @ apos @ '' date invalide, re'' @ c_cedil @
     ''u: '' @ apos @ valeur_str @ apos"

definition msg_vide :: "string \<Rightarrow> string" where
  "msg_vide nom = apos @ nom @ apos @ '' ne peut pas '' @ e_circ @ ''tre vide''"

text \<open>The branch of the formats \<open>16_chiffres\<close> and \<open>12_chiffres\<close>.\<close>

definition valider_chiffres :: "nat \<Rightarrow> string \<Rightarrow> string \<Rightarrow> bool \<times> 'f valeur" where
  "valider_chiffres n valeur_str nom =
     (if \<not> isdigit valeur_str then (False, VStr (msg_chiffres nom valeur_str))
      else if length valeur_str \<noteq> n then (False, VStr (msg_longueur nom n (length valeur_str)))
      else (True, VStr valeur_str))"

text \<open>The branch of the format \<open>lettres\<close>: \<open>re.sub(r'[^a-zA-Z\s]', '', valeur_str)\<close>, the
  test \<open>not nom_clean\<close>, then \<open>nom_clean.strip()\<close>.\<close>

definition valider_lettres :: "string \<Rightarrow> string \<Rightarrow> bool \<times> 'f valeur" where
  "valider_lettres valeur_str nom =
     (let nom_clean = filter (\<lambda>c. is_ascii_letter c \<or> isspace c) valeur_str
      in if nom_clean = [] then (False, VStr (msg_lettres nom valeur_str))
         else (True, VStr (strip nom_clean)))"

text \<open>The branch of the format \<open>date\<close>. Every exception of the \<open>try\<close> block (a
  component that \<open>int\<close> refuses, a date that \<open>datetime\<close> refuses) is caught by the bare
  \<open>except\<close>.\<close>

definition valider_date :: "string \<Rightarrow> string \<Rightarrow> bool \<times> 'f valeur" where
  "valider_date valeur_str nom =
     (let date_clean = replace_char (CHR ''/'') (CHR '' '') (replace_char (CHR ''-'') (CHR '' '') valeur_str);
          parts = split date_clean
      in case parts of
           [jour, mois, annee] \<Rightarrow>
             (case (py_int annee, py_int mois, py_int jour) of
                (Some y, Some m, Some d) \<Rightarrow>
                  if datetime_ok y m d then (True, VStr (jour @ '' '' @ mois @ '' '' @ annee))
                  else (False, VStr (msg_date_invalide nom valeur_str))
              | _ \<Rightarrow> (False, VStr (msg_date_invalide nom valeur_str)))
         | _ \<Rightarrow> (False, VStr (msg_date_format nom valeur_str)))"

definition valider_format ::
  "'f float_ops \<Rightarrow> 'f raw option \<Rightarrow> string \<Rightarrow> string \<Rightarrow> bool \<times> 'f valeur" where
  "valider_format F valeur format_attendu nom_propriete =
     (case valeur of
        None \<Rightarrow> (False, VStr (msg_manquante nom_propriete))
      | Some v \<Rightarrow>
          (let valeur_str = py_str F v in
           if format_attendu = ''16_chiffres'' then valider_chiffres 16 valeur_str nom_propriete
           else if format_attendu = ''12_chiffres'' then valider_chiffres 12 valeur_str nom_propriete
           else if format_attendu = ''lettres'' then valider_lettres valeur_str nom_propriete
           else if format_attendu = ''nombre'' then
             (case float_of F valeur_str of
                Some x \<Rightarrow> (True, VFloat x)
              | None \<Rightarrow> (False, VStr (msg_nombre nom_propriete valeur_str)))
           else if format_attendu = ''date'' then valider_date valeur_str nom_propriete
           else if format_attendu = ''texte'' then
             (if valeur_str = [] \<or> strip valeur_str = [] then (False, VStr (msg_vide nom_propriete))
              else (True, VStr valeur_str))
           else (True, VStr valeur_str)))"

section \<open>An instance of the floating-point parameters\<close>

text \<open>
  The concrete scenarios need a value for the parameters: floats are represented by
  their \<open>repr\<close>, and \<open>float_of\<close> knows the two literals of the reference element,
  \<open>12.23\<close> and \<open>400.0\<close>, which are their own \<open>repr\<close>.
\<close>

definition float_ops_exemple :: "string float_ops" where
  "float_ops_exemple =
     \<lparr> float_of = (\<lambda>s. if s = ''12.23'' \<or> s = ''400.0'' then Some s else None),
       repr_of = (\<lambda>x. x), json_of = (\<lambda>x. x) \<rparr>"

text \<open>What the two \<open>replace\<close> calls of the date branch do to one character.\<close>

definition sep_to_space :: "char \<Rightarrow> char" where
  "sep_to_space c = (if c = CHR ''-'' \<or> c = CHR ''/'' then CHR '' '' else c)"

section \<open>SHA-256 and its hexadecimal digest\<close>

text \<open>
  \<open>hashlib.sha256(data).hexdigest()\<close> is the hash function SHA-256 of FIPS 180-4 on a
  sequence of bytes, written as 64 lowercase hexadecimal digits. Words are 32 bits wide
  and addition wraps.
\<close>

type_synonym byte = "8 word"

text \<open>The first 32 bits of the fractional parts of the cube roots of the first 64
  primes, and of the square roots of the first 8 primes, as decimal numerals.\<close>

definition sha_K :: "32 word list" where
  "sha_K = [
     1116352408, 1899447441, 3049323471, 3921009573, 961987163, 1508970993,
     2453635748, 2870763221, 3624381080, 310598401, 607225278, 1426881987,
     1925078388, 2162078206, 2614888103, 3248222580, 3835390401, 4022224774,
     264347078, 604807628, 770255983, 1249150122, 1555081692, 1996064986,
     2554220882, 2821834349, 2952996808, 3210313671, 3336571891, 3584528711,
     113926993, 338241895, 666307205, 773529912, 1294757372, 1396182291,
     1695183700, 1986661051, 2177026350, 2456956037, 2730485921, 2820302411,
     3259730800, 3345764771, 3516065817, 3600352804, 4094571909, 275423344,
     430227734, 506948616, 659060556, 883997877, 958139571, 1322822218,
     1537002063, 1747873779, 1955562222, 2024104815, 2227730452, 2361852424,
     2428436474, 2756734187, 3204031479, 3329325298]"

definition sha_H0 :: "32 word list" where
  "sha_H0 = [
     1779033703, 3144134277, 1013904242, 2773480762,
     1359893119, 2600822924, 528734635, 1541459225]"

definition sha_ch :: "32 word \<Rightarrow> 32 word \<Rightarrow> 32 word \<Rightarrow> 32 word" where
  "sha_ch x y z = xor (and x y) (and (not x) z)"

definition sha_maj :: "32 word \<Rightarrow> 32 word \<Rightarrow> 32 word \<Rightarrow> 32 word" where
  "sha_maj x y z = xor (xor (and x y) (and x z)) (and y z)"

definition big_sigma0 :: "32 word \<Rightarrow> 32 word" where
  "big_sigma0 x = xor (xor (word_rotr 2 x) (word_rotr 13 x)) (word_rotr 22 x)"

definition big_sigma1 :: "32 word \<Rightarrow> 32 word" where
  "big_sigma1 x = xor (xor (word_rotr 6 x) (word_rotr 11 x)) (word_rotr 25 x)"

definition small_sigma0 :: "32 word \<Rightarrow> 32 word" where
  "small_sigma0 x = xor (xor (word_rotr 7 x) (word_rotr 18 x)) (drop_bit 3 x)"

definition small_sigma1 :: "32 word \<Rightarrow> 32 word" where
  "small_sigma1 x = xor (xor (word_rotr 17 x) (word_rotr 19 x)) (drop_bit 10 x)"

text \<open>The message followed by the byte \<open>0x80\<close>, zero bytes up to 56 modulo 64, and the
  length of the message in bits as 8 bytes, most significant first.\<close>

definition sha_pad :: "byte list \<Rightarrow> byte list" where
  "sha_pad msg = msg @ [0x80] @ replicate ((119 - length msg mod 64) mod 64) 0 @
     map (\<lambda>i. ucast (drop_bit (8 * (7 - i)) (of_nat (8 * length msg) :: 64 word))) [0..<8]"

definition be32 :: "byte list \<Rightarrow> 32 word" where
  "be32 bs = foldl (\<lambda>a b. push_bit 8 a + ucast b) 0 (take 4 bs)"

definition sha_blocks :: "byte list \<Rightarrow> 32 word list list" where
  "sha_blocks bs =
     map (\<lambda>i. map (\<lambda>j. be32 (drop (64 * i + 4 * j) bs)) [0..<16]) [0..<length bs div 64]"

text \<open>The message schedule: \<open>n\<close> more words after the ones of \<open>w\<close>.\<close>

fun sha_extend :: "nat \<Rightarrow> 32 word list \<Rightarrow> 32 word list" where
  "sha_extend 0 w = w"
| "sha_extend (Suc n) w =
     (let t = length w in
      sha_extend n (w @ [small_sigma1 (w ! (t - 2)) + w ! (t - 7) +
                         small_sigma0 (w ! (t - 15)) + w ! (t - 16)]))"

text \<open>One round on the working variables \<open>a\<close>..\<open>h\<close>, and the 64 rounds of a block.\<close>

fun sha_round :: "32 word list \<Rightarrow> 32 word \<times> 32 word \<Rightarrow> 32 word list" where
  "sha_round [a, b, c, d, e, f, g, h] (k, w) =
     (let t1 = h + big_sigma1 e + sha_ch e f g + k + w;
          t2 = big_sigma0 a + sha_maj a b c
      in [t1 + t2, a, b, c, d + t1, e, f, g])"
| "sha_round s kw = s"

definition sha_compress :: "32 word list \<Rightarrow> 32 word list \<Rightarrow> 32 word list" where
  "sha_compress hs blk = map2 (+) hs (foldl sha_round hs (zip sha_K (sha_extend 48 blk)))"

definition sha256 :: "byte list \<Rightarrow> 32 word list" where
  "sha256 msg = foldl sha_compress sha_H0 (sha_blocks (sha_pad msg))"

definition hex_digit :: "nat \<Rightarrow> char" where
  "hex_digit n = (if n < 10 then char_of (48 + n) else char_of (87 + n))"

definition hex32 :: "32 word \<Rightarrow> string" where
  "hex32 w = map (\<lambda>i. hex_digit (unat (and (drop_bit (4 * (7 - i)) w) 15))) [0..<8]"

definition hexdigest :: "32 word list \<Rightarrow> string" where
  "hexdigest ws = concat (map hex32 ws)"

definition sha256_hex :: "byte list \<Rightarrow> string" where
  "sha256_hex msg = hexdigest (sha256 msg)"

text \<open>\<open>s.encode('utf-8')\<close> for code points below U+0100: one byte below U+0080, two
  bytes from there on.\<close>

definition utf8_char :: "char \<Rightarrow> byte list" where
  "utf8_char c = (let n = (of_char c :: nat) in
     if n < 128 then [of_nat n] else [of_nat (192 + n div 64), of_nat (128 + n mod 64)])"

definition encode_utf8 :: "string \<Rightarrow> byte list" where
  "encode_utf8 s = concat (map utf8_char s)"

section \<open>Dictionaries and JSON\<close>

text \<open>
  A Python \<open>dict\<close> with string keys is an association list with distinct keys, in
  insertion order. \<open>d[k] = v\<close> replaces the value of a key that is present, in place,
  and appends a new key at the end.
\<close>

type_synonym 'v dict = "(string \<times> 'v) list"

fun dict_set :: "'v dict \<Rightarrow> string \<Rightarrow> 'v \<Rightarrow> 'v dict" where
  "dict_set [] k v = [(k, v)]"
| "dict_set ((k', v') # d) k v = (if k' = k then (k, v) # d else (k', v') # dict_set d k v)"

definition dict_get :: "'v dict \<Rightarrow> string \<Rightarrow> 'v option" where
  "dict_get d k = map_of d k"

text \<open>\<open>str(x)\<close> and the f-string \<open>{x}\<close> of a value of a record.\<close>

fun str_valeur :: "'f float_ops \<Rightarrow> 'f valeur \<Rightarrow> string" where
  "str_valeur F (VStr s) = s"
| "str_valeur F (VFloat x) = repr_of F x"

text \<open>
  The string encoder of \<open>json\<close> with \<open>ensure_ascii=False\<close>: the quotation mark, the
  backslash and the control characters below U+0020 are escaped, every other character
  is written as it is.
\<close>

definition json_escape_char :: "char \<Rightarrow> string" where
  "json_escape_char c = (let n = (of_char c :: nat) in
     if c = CHR 0x22 then [CHR 0x5C, CHR 0x22]
     else if c = CHR 0x5C then [CHR 0x5C, CHR 0x5C]
     else if n = 10 then [CHR 0x5C, CHR ''n'']
     else if n = 13 then [CHR 0x5C, CHR ''r'']
     else if n = 9 then [CHR 0x5C, CHR ''t'']
     else if n = 8 then [CHR 0x5C, CHR ''b'']
     else if n = 12 then [CHR 0x5C, CHR ''f'']
     else if n < 32 then [CHR 0x5C, CHR ''u'', CHR ''0'', CHR ''0'', hex_digit (n div 16), hex_digit (n mod 16)]
     else [c])"

definition json_string :: "string \<Rightarrow> string" where
  "json_string s = [CHR 0x22] @ concat (map json_escape_char s) @ [CHR 0x22]"

fun json_valeur :: "'f float_ops \<Rightarrow> 'f valeur \<Rightarrow> string" where
  "json_valeur F (VStr s) = json_string s"
| "json_valeur F (VFloat x) = json_of F x"

definition json_item :: "'f float_ops \<Rightarrow> string \<times> 'f valeur \<Rightarrow> string" where
  "json_item F kv = json_string (fst kv) @ '': '' @ json_valeur F (snd kv)"

text \<open>\<open>sep.join(xs)\<close>.\<close>

fun join :: "string \<Rightarrow> string list \<Rightarrow> string" where
  "join sep [] = []"
| "join sep [x] = x"
| "join sep (x # y # ys) = x @ sep @ join sep (y # ys)"

text \<open>\<open>json.dumps(d, sort_keys=True, ensure_ascii=False)\<close>: the items in the order of
  their keys (the order of \<open>str\<close>: code point by code point), separated by a comma and a
  space.\<close>

definition dumps_sorted :: "'f float_ops \<Rightarrow> 'f valeur dict \<Rightarrow> string" where
  "dumps_sorted F d =
     ''{'' @ join '', '' (map (json_item F) (sort_key fst d)) @ ''}''"

text \<open>\<open>json.dump(d, f, indent=2, ensure_ascii=False)\<close>: the items in insertion order,
  one per line, indented by two spaces.\<close>

definition dumps_indent :: "'f float_ops \<Rightarrow> 'f valeur dict \<Rightarrow> string" where
  "dumps_indent F d =
     (if d = [] then ''{}''
      else ''{'' @ [CHR 0x0A] @
           join ('','' @ [CHR 0x0A]) (map (\<lambda>kv. ''  '' @ json_item F kv) d) @
           [CHR 0x0A] @ ''}'')"

section \<open>IFC_extractor_5.4.py: the two hashes\<close>

definition calculer_hash_json :: "'f float_ops \<Rightarrow> 'f valeur dict \<Rightarrow> string" where
  "calculer_hash_json F proprietes =
     sha256_hex (encode_utf8 (dumps_sorted F proprietes))"

text \<open>\<open>calculer_hash_fichier\<close>, on the bytes the file holds.\<close>

definition calculer_hash_fichier :: "byte list \<Rightarrow> string" where
  "calculer_hash_fichier contenu = sha256_hex contenu"

section \<open>IFC_extractor_5.4.py: the schema and the extraction of one element\<close>

datatype py_type = PyStr | PyFloat

record config =
  type_attendu :: py_type
  format :: string
  description :: string

text \<open>\<open>self.parametres_obligatoires\<close>, in the order of the dictionary literal.\<close>

definition parametres_obligatoires :: "(string \<times> config) list" where
  "parametres_obligatoires = [
     (''NOM'', \<lparr>type_attendu = PyStr, format = ''lettres'',
        description = ''Nom de l'' @ apos @ ''objet (lettres uniquement)''\<rparr>),
     (''ID'', \<lparr>type_attendu = PyStr, format = ''16_chiffres'',
        description = ''ID '' @ a_grave @ '' 16 chiffres''\<rparr>),
     (''ID_maquette'', \<lparr>type_attendu = PyStr, format = ''12_chiffres'',
        description = ''ID maquette '' @ a_grave @ '' 12 chiffres''\<rparr>),
     (''Longueur_m'', \<lparr>type_attendu = PyFloat, format = ''nombre'',
        description = ''Longueur en m'' @ e_grave @ ''tres''\<rparr>),
     (''Caracteristique_Materiau'', \<lparr>type_attendu = PyStr, format = ''texte'',
        description = ''Caract'' @ e_acute @ ''ristique du mat'' @ e_acute @ ''riau''\<rparr>),
     (''Materiau'', \<lparr>type_attendu = PyStr, format = ''texte'',
        description = ''Type de mat'' @ e_acute @ ''riau''\<rparr>),
     (''Statut usage'', \<lparr>type_attendu = PyStr, format = ''texte'',
        description = ''Statut d'' @ apos @ ''usage (neuf/en usage/r'' @ e_acute @ ''employ'' @
          e_acute @ '')''\<rparr>),
     (''Date de fabrication'', \<lparr>type_attendu = PyStr, format = ''date'',
        description = ''Date de fabrication (JJ MM AAAA)''\<rparr>),
     (''date mise en service'', \<lparr>type_attendu = PyStr, format = ''date'',
        description = ''date mise en service (JJ MM AAAA)''\<rparr>),
     (''Date de r'' @ e_acute @ ''employe'', \<lparr>type_attendu = PyStr, format = ''date'',
        description = ''Date de r'' @ e_acute @ ''emploi (JJ MM AAAA)''\<rparr>),
     (''Empreinte Carbonne'', \<lparr>type_attendu = PyFloat, format = ''nombre'',
        description = ''Empreinte carbone''\<rparr>)]"

text \<open>
  An element, as the extractor sees it through the IFC library: the names and wrapped
  values of the single-value properties that have a nominal value, in the order in which
  \<open>extraire_propriete_specifique\<close> visits the property sets of the element. The
  function returns the value of the first property with the name.
\<close>

type_synonym 'f element = "(string \<times> 'f raw) list"

definition extraire_propriete_specifique :: "'f element \<Rightarrow> string \<Rightarrow> 'f raw option" where
  "extraire_propriete_specifique element nom_propriete = map_of element nom_propriete"

text \<open>The names tried for a date that was not found under its own name.\<close>

definition variantes :: "string \<Rightarrow> string list" where
  "variantes nom_ifc =
     (let reemploye = (if contains (''r'' @ e_acute @ ''employe'') nom_ifc
                       then ''Date de r'' @ e_acute @ ''employe'' else nom_ifc)
      in [nom_ifc, replace_char (CHR '' '') (CHR ''_'') nom_ifc,
          replace_char (CHR ''_'') (CHR '' '') nom_ifc, reemploye, reemploye])"

text \<open>The loop over the variants: it stops at the first name that has a value.\<close>

fun chercher_variantes :: "'f element \<Rightarrow> string list \<Rightarrow> 'f raw option" where
  "chercher_variantes element [] = None"
| "chercher_variantes element (variante # reste) =
     (case extraire_propriete_specifique element variante of
        Some v \<Rightarrow> Some v
      | None \<Rightarrow> chercher_variantes element reste)"

text \<open>
  The entries of the list \<open>erreurs\<close>: the two f-strings
  \<open>PROPRIETE MANQUANTE: '{nom_ifc}' ({description})\<close> and \<open>FORMAT INVALIDE: {resultat}\<close>
  (each after a cross mark, a character beyond U+00FF) as constructors that carry the
  interpolated parts.
\<close>

datatype erreur = PROPRIETE_MANQUANTE string string | FORMAT_INVALIDE string

text \<open>The value looked up for a field. In the source every branch of the chain that
  computes \<open>nom_ifc\<close> assigns the name of the field itself.\<close>

definition valeur_du_champ :: "'f element \<Rightarrow> string \<Rightarrow> 'f raw option" where
  "valeur_du_champ element nom_prop =
     (let nom_ifc = nom_prop;
          valeur = extraire_propriete_specifique element nom_ifc
      in if valeur = None \<and> contains ''Date'' nom_prop
         then chercher_variantes element (variantes nom_ifc)
         else valeur)"

text \<open>One turn of the loop over the schema, on the pair \<open>(proprietes, erreurs)\<close>.\<close>

definition extraire_champ ::
  "'f float_ops \<Rightarrow> 'f element \<Rightarrow> 'f valeur dict \<times> erreur list \<Rightarrow> string \<times> config \<Rightarrow>
   'f valeur dict \<times> erreur list" where
  "extraire_champ F element etat champ =
     (let nom_prop = fst champ; cfg = snd champ; proprietes = fst etat; erreurs = snd etat in
      case valeur_du_champ element nom_prop of
        None \<Rightarrow> (proprietes, erreurs @ [PROPRIETE_MANQUANTE nom_prop (description cfg)])
      | Some v \<Rightarrow>
          (let r = valider_format F (Some v) (format cfg) nom_prop in
           if \<not> fst r then (proprietes, erreurs @ [FORMAT_INVALIDE (str_valeur F (snd r))])
           else (dict_set proprietes nom_prop (snd r), erreurs)))"

definition extraire_boucle ::
  "'f float_ops \<Rightarrow> (string \<times> config) list \<Rightarrow> 'f element \<Rightarrow> 'f valeur dict \<times> erreur list" where
  "extraire_boucle F schema element = foldl (extraire_champ F element) ([], []) schema"

text \<open>The exceptions of the model, with the text \<open>str(e)\<close> gives.\<close>

datatype exn = ValueError string | KeyError string | AttributeError string | IfcError string

fun str_exn :: "exn \<Rightarrow> string" where
  "str_exn (ValueError m) = m"
| "str_exn (KeyError k) = apos @ k @ apos"
| "str_exn (AttributeError m) = m"
| "str_exn (IfcError m) = m"

definition msg_extraction :: "nat \<Rightarrow> string" where
  "msg_extraction n = ''Extraction '' @ e_acute @ ''chou'' @ e_acute @ ''e: '' @ str_nat n @
     '' erreur(s)''"

text \<open>
  \<open>extraire_toutes_proprietes_element\<close>: after the loop a non-empty list of errors is
  printed and a \<open>ValueError\<close> with the number of errors is raised (\<open>Inl\<close>); otherwise
  the record is returned with an empty list.
\<close>

definition extraire_toutes_proprietes_element ::
  "'f float_ops \<Rightarrow> 'f element \<Rightarrow> exn + ('f valeur dict \<times> erreur list)" where
  "extraire_toutes_proprietes_element F element =
     (let etat = extraire_boucle F parametres_obligatoires element in
      if snd etat \<noteq> [] then Inl (ValueError (msg_extraction (length (snd etat))))
      else Inr (fst etat, []))"

section \<open>IFC_extractor_5.4.py: processing a file\<close>

text \<open>
  The files written so far, by path. Writing and copying are taken to succeed; the
  source file is read again for every hash and keeps its content.
\<close>

type_synonym fs = "(string \<times> byte list) list"

definition ecrire :: "fs \<Rightarrow> string \<Rightarrow> byte list \<Rightarrow> fs" where
  "ecrire sysfic chemin octets = dict_set sysfic chemin octets"

definition objets_ifc_dir :: string where
  "objets_ifc_dir = ''data/processed/objets_ifc''"

definition objets_json_dir :: string where
  "objets_json_dir = ''data/processed/objets_json''"

definition maquettes_dir :: string where
  "maquettes_dir = ''data/processed/maquettes''"

text \<open>\<open>re.sub(r'[^\w\-]', '', s)\<close>.\<close>

definition nettoyer_nom :: "string \<Rightarrow> string" where
  "nettoyer_nom s = filter (\<lambda>c. is_word_char c \<or> c = CHR ''-'') s"

text \<open>
  The block that adds the two hashes to a record (the same lines in
  \<open>traiter_fichier_maquette\<close> and in \<open>traiter_objet_unitaire\<close>): first \<open>hash_ifc\<close>,
  the hash of the source file, then \<open>hash_json\<close>, the hash of the record as it is then.
\<close>

definition ajouter_hashs :: "'f float_ops \<Rightarrow> byte list \<Rightarrow> 'f valeur dict \<Rightarrow> 'f valeur dict" where
  "ajouter_hashs F contenu proprietes =
     (let hash_ifc = calculer_hash_fichier contenu;
          proprietes1 = dict_set proprietes ''hash_ifc'' (VStr hash_ifc);
          hash_json = calculer_hash_json F proprietes1
      in dict_set proprietes1 ''hash_json'' (VStr hash_json))"

text \<open>
  The name of the two output files of a record,
  \<open>f"{proprietes['ID']}_{proprietes['NOM'].replace(' ', '_')}"\<close> cleaned: a missing key
  is a \<open>KeyError\<close>, a name that is no string an \<open>AttributeError\<close>.
\<close>

definition nom_de_fichier :: "'f float_ops \<Rightarrow> 'f valeur dict \<Rightarrow> exn + string" where
  "nom_de_fichier F proprietes =
     (case dict_get proprietes ''ID'' of
        None \<Rightarrow> Inl (KeyError ''ID'')
      | Some ident \<Rightarrow>
          (case dict_get proprietes ''NOM'' of
             None \<Rightarrow> Inl (KeyError ''NOM'')
           | Some (VFloat x) \<Rightarrow> Inl (AttributeError ''replace'')
           | Some (VStr nom_objet) \<Rightarrow>
               Inr (nettoyer_nom (str_valeur F ident @ ''_'' @
                      replace_char (CHR '' '') (CHR ''_'') nom_objet))))"

text \<open>The two files of an accepted record: its JSON document, then a copy of the
  source file.\<close>

definition ecrire_objet ::
  "'f float_ops \<Rightarrow> byte list \<Rightarrow> fs \<Rightarrow> string \<Rightarrow> 'f valeur dict \<Rightarrow> fs" where
  "ecrire_objet F contenu sysfic nom_fichier proprietes =
     ecrire (ecrire sysfic (objets_json_dir @ ''/'' @ nom_fichier @ ''.json'')
               (encode_utf8 (dumps_indent F proprietes)))
       (objets_ifc_dir @ ''/'' @ nom_fichier @ ''.ifc'') contenu"

text \<open>
  The body of the loop over the elements, on the written files and the two counters
  \<open>objets_crees\<close> and \<open>erreurs_totales\<close>. Both \<open>except\<close> clauses count an error.
\<close>

definition traiter_element ::
  "'f float_ops \<Rightarrow> byte list \<Rightarrow> fs \<times> nat \<times> nat \<Rightarrow> 'f element \<Rightarrow> fs \<times> nat \<times> nat" where
  "traiter_element F contenu etat element =
     (let sysfic = fst etat; objets_crees = fst (snd etat); erreurs_totales = snd (snd etat) in
      case extraire_toutes_proprietes_element F element of
        Inl e \<Rightarrow> (sysfic, objets_crees, erreurs_totales + 1)
      | Inr (proprietes, erreurs) \<Rightarrow>
          if erreurs \<noteq> [] then (sysfic, objets_crees, erreurs_totales + 1)
          else
            (let proprietes2 = ajouter_hashs F contenu proprietes in
             case nom_de_fichier F proprietes2 of
               Inl e \<Rightarrow> (sysfic, objets_crees, erreurs_totales + 1)
             | Inr nom_fichier \<Rightarrow>
                 (ecrire_objet F contenu sysfic nom_fichier proprietes2,
                  objets_crees + 1, erreurs_totales)))"

text \<open>
  The model that \<open>ifcopenshell.open\<close> returns: the elements of each IFC type, and the
  named values of every property set of the file (\<open>by_type('IfcPropertySet')\<close>).
\<close>

record 'f modele =
  by_type :: "string \<Rightarrow> 'f element list"
  property_sets :: "(string \<times> 'f raw) list list"

text \<open>What the environment supplies while a file is processed: the lines typed at the
  five prompts and the date of the day as \<open>strftime("%d %m %Y")\<close> writes it.\<close>

record entrees =
  saisie_nom_maquette :: string
  saisie_nom_architecte :: string
  saisie_coordonnees :: string
  saisie_programme :: string
  saisie_date_livraison :: string
  date_du_jour :: string

text \<open>A source file: its bytes, what \<open>ifcopenshell.open\<close> does on it (an exception or
  a model), and the environment while it is processed.\<close>

record 'f fichier =
  contenu_fichier :: "byte list"
  ouverture :: "exn + 'f modele"
  entrees_fichier :: entrees

text \<open>The search of \<open>ID_maquette\<close>: in every property set the first property of that
  name whose value is a string of 12 digits; a later property set overrides an earlier
  one.\<close>

definition chercher_id_maquette :: "'f float_ops \<Rightarrow> (string \<times> 'f raw) list list \<Rightarrow> string option" where
  "chercher_id_maquette F psets =
     foldl (\<lambda>id_maquette pset.
        case find (\<lambda>p. fst p = ''ID_maquette'' \<and> isdigit (py_str F (snd p)) \<and>
                       length (py_str F (snd p)) = 12) pset of
          Some p \<Rightarrow> Some (py_str F (snd p))
        | None \<Rightarrow> id_maquette) None psets"

text \<open>\<open>input(...).strip() or defaut\<close>.\<close>

definition saisie_ou :: "string \<Rightarrow> string \<Rightarrow> string" where
  "saisie_ou ligne defaut = (if strip ligne = [] then defaut else strip ligne)"

definition collecter_metadonnees_maquette ::
  "'f float_ops \<Rightarrow> 'f modele \<Rightarrow> entrees \<Rightarrow> exn + 'f valeur dict" where
  "collecter_metadonnees_maquette F modele_ifc env =
     (case chercher_id_maquette F (property_sets modele_ifc) of
        None \<Rightarrow> Inl (ValueError ''ID_maquette manquant dans le fichier IFC'')
      | Some id_maquette \<Rightarrow> Inr [
          (''ID_maquette'', VStr id_maquette),
          (''nom_maquette'', VStr (saisie_ou (saisie_nom_maquette env) (''Diog'' @ e_grave @ ''ne''))),
          (''nom_architecte'', VStr (saisie_ou (saisie_nom_architecte env) ''Renzo Piano'')),
          (''coordonnees_geographiques'', VStr (saisie_ou (saisie_coordonnees env) ''46.5197/6.6323'')),
          (''programme'', VStr (saisie_ou (saisie_programme env) ''Logement'')),
          (''date livraison'', VStr (saisie_ou (saisie_date_livraison env) (date_du_jour env))),
          (''date depot'', VStr (date_du_jour env))])"

definition types_elements :: "string list" where
  "types_elements = [''IfcProxy'', ''IfcWall'', ''IfcSlab'', ''IfcBeam'', ''IfcColumn'',
     ''IfcDoor'', ''IfcWindow'', ''IfcRoof'', ''IfcStair'', ''IfcRailing'',
     ''IfcBuildingElementProxy'', ''IfcFurnishingElement'']"

text \<open>The dictionaries the two operations on a file return: \<open>status\<close> is \<open>success\<close>
  (with the counters and the folder of the model, or alone) or \<open>error\<close> with a
  message.\<close>

datatype resultat = Succes_maquette nat nat string | Succes | Erreur string

fun status :: "resultat \<Rightarrow> string" where
  "status (Succes_maquette objets_crees erreurs maquette_path) = ''success''"
| "status Succes = ''success''"
| "status (Erreur message) = ''error''"

definition msg_aucun_objet :: "nat \<Rightarrow> string" where
  "msg_aucun_objet n = ''Aucun objet valide cr'' @ e_acute @ e_acute @ ''! '' @ str_nat n @
     '' erreurs rencontr'' @ e_acute @ ''es''"

text \<open>The block that adds the two hashes to the metadata of the model.\<close>

definition ajouter_hashs_maquette ::
  "'f float_ops \<Rightarrow> byte list \<Rightarrow> 'f valeur dict \<Rightarrow> 'f valeur dict" where
  "ajouter_hashs_maquette F contenu metadonnees =
     (let hash_maquette_ifc = calculer_hash_fichier contenu;
          metadonnees1 = dict_set metadonnees ''hash_maquette_ifc'' (VStr hash_maquette_ifc);
          hash_maquette_json = calculer_hash_json F metadonnees1
      in dict_set metadonnees1 ''hash_maquette_json'' (VStr hash_maquette_json))"

text \<open>
  \<open>traiter_fichier_maquette\<close>. Every exception raised inside (by
  \<open>ifcopenshell.open\<close>, by the search of \<open>ID_maquette\<close>, or because no object was
  created) is caught by the outer \<open>except Exception\<close> and becomes the result \<open>error\<close>.
\<close>

definition traiter_fichier_maquette :: "'f float_ops \<Rightarrow> fs \<Rightarrow> 'f fichier \<Rightarrow> fs \<times> resultat" where
  "traiter_fichier_maquette F sysfic fichier =
     (case ouverture fichier of
        Inl e \<Rightarrow> (sysfic, Erreur (str_exn e))
      | Inr modele_ifc \<Rightarrow>
          (case collecter_metadonnees_maquette F modele_ifc (entrees_fichier fichier) of
             Inl e \<Rightarrow> (sysfic, Erreur (str_exn e))
           | Inr metadonnees \<Rightarrow>
               (let id_maquette = (case dict_get metadonnees ''ID_maquette'' of
                                     Some v \<Rightarrow> str_valeur F v | None \<Rightarrow> []);
                    nom_maquette_clean = nettoyer_nom
                      (case dict_get metadonnees ''nom_maquette'' of
                         Some v \<Rightarrow> str_valeur F v | None \<Rightarrow> []);
                    dossier_maquette = maquettes_dir @ ''/maquette_'' @ nom_maquette_clean @
                      ''_'' @ id_maquette;
                    elements = concat (map (by_type modele_ifc) types_elements);
                    etat = foldl (traiter_element F (contenu_fichier fichier)) (sysfic, 0, 0) elements;
                    objets_crees = fst (snd etat);
                    erreurs_totales = snd (snd etat)
                in if objets_crees = 0
                   then (fst etat, Erreur (str_exn (ValueError (msg_aucun_objet erreurs_totales))))
                   else
                     (let sysfic1 = ecrire (fst etat)
                            (dossier_maquette @ ''/'' @ nom_maquette_clean @ ''.ifc'')
                            (contenu_fichier fichier);
                          metadonnees2 = ajouter_hashs_maquette F (contenu_fichier fichier) metadonnees;
                          sysfic2 = ecrire sysfic1
                            (dossier_maquette @ ''/'' @ nom_maquette_clean @ ''.json'')
                            (encode_utf8 (dumps_indent F metadonnees2))
                      in (sysfic2, Succes_maquette objets_crees erreurs_totales dossier_maquette)))))"

text \<open>The element \<open>traiter_objet_unitaire\<close> works on: the first element of the first
  type of its list that has one, else the first \<open>IfcElement\<close>.\<close>

fun premier_element :: "'f modele \<Rightarrow> string list \<Rightarrow> 'f element option" where
  "premier_element modele_ifc [] =
     (case by_type modele_ifc ''IfcElement'' of [] \<Rightarrow> None | e # es \<Rightarrow> Some e)"
| "premier_element modele_ifc (t # ts) =
     (case by_type modele_ifc t of [] \<Rightarrow> premier_element modele_ifc ts | e # es \<Rightarrow> Some e)"

definition traiter_objet_unitaire :: "'f float_ops \<Rightarrow> fs \<Rightarrow> 'f fichier \<Rightarrow> fs \<times> resultat" where
  "traiter_objet_unitaire F sysfic fichier =
     (case ouverture fichier of
        Inl e \<Rightarrow> (sysfic, Erreur (str_exn e))
      | Inr modele_ifc \<Rightarrow>
          (case premier_element modele_ifc
                  [''IfcProxy'', ''IfcBuildingElementProxy'', ''IfcBeam'', ''IfcColumn''] of
             None \<Rightarrow> (sysfic, Erreur (''Aucun '' @ e_acute @ ''l'' @ e_acute @ ''ment IFC valide''))
           | Some element \<Rightarrow>
               (case extraire_toutes_proprietes_element F element of
                  Inl e \<Rightarrow> (sysfic, Erreur (str_exn e))
                | Inr (proprietes, erreurs) \<Rightarrow>
                    if erreurs \<noteq> []
                    then (sysfic, Erreur (''Propri'' @ e_acute @ ''t'' @ e_acute @
                            ''s manquantes ou invalides''))
                    else
                      (let proprietes2 = ajouter_hashs F (contenu_fichier fichier) proprietes in
                       case nom_de_fichier F proprietes2 of
                         Inl e \<Rightarrow> (sysfic, Erreur (str_exn e))
                       | Inr nom_fichier \<Rightarrow>
                           (ecrire_objet F (contenu_fichier fichier) sysfic nom_fichier proprietes2,
                            Succes)))))"

record stats =
  total :: nat
  success :: nat
  errors :: nat
  stat_objets_crees :: nat
  stat_objets_ignores :: nat

text \<open>The body of the loop of \<open>traiter_tous_fichiers\<close> over the files.\<close>

definition traiter_un_fichier ::
  "'f float_ops \<Rightarrow> string \<Rightarrow> fs \<times> stats \<Rightarrow> 'f fichier \<Rightarrow> fs \<times> stats" where
  "traiter_un_fichier F type_traitement etat fichier =
     (let sysfic = fst etat; st = snd etat in
      if type_traitement = ''maquette'' then
        (let r = traiter_fichier_maquette F sysfic fichier in
         if status (snd r) = ''success'' then
           (fst r, st\<lparr>success := success st + 1,
               stat_objets_crees := stat_objets_crees st +
                 (case snd r of Succes_maquette n e p \<Rightarrow> n | _ \<Rightarrow> 0),
               stat_objets_ignores := stat_objets_ignores st +
                 (case snd r of Succes_maquette n e p \<Rightarrow> e | _ \<Rightarrow> 0)\<rparr>)
         else (fst r, st\<lparr>errors := errors st + 1\<rparr>))
      else
        (let r = traiter_objet_unitaire F sysfic fichier in
         if status (snd r) = ''success'' then
           (fst r, st\<lparr>success := success st + 1, stat_objets_crees := stat_objets_crees st + 1\<rparr>)
         else
           (fst r, st\<lparr>errors := errors st + 1,
               stat_objets_ignores := stat_objets_ignores st + 1\<rparr>)))"

text \<open>
  \<open>traiter_tous_fichiers\<close> on the files of the input folder and the kind of processing
  the user chose: nothing is done without files (\<open>None\<close>); otherwise the result is the
  statistics that the function prints.
\<close>

definition traiter_tous_fichiers ::
  "'f float_ops \<Rightarrow> fs \<Rightarrow> 'f fichier list \<Rightarrow> string \<Rightarrow> fs \<times> stats option" where
  "traiter_tous_fichiers F sysfic fichiers_ifc type_traitement =
     (if fichiers_ifc = [] then (sysfic, None)
      else
        (let etat = foldl (traiter_un_fichier F type_traitement)
               (sysfic, \<lparr>total = length fichiers_ifc, success = 0, errors = 0,
                  stat_objets_crees = 0, stat_objets_ignores = 0\<rparr>) fichiers_ifc
         in (fst etat, Some (snd etat))))"

section \<open>ifc_r9_extractor.py: the validators of the earlier extractor\<close>

text \<open>\<open>s.lower()\<close>: the capital letters of Basic Latin and of Latin-1 (U+00C0..U+00DE
  without the multiplication sign U+00D7) move up by 32.\<close>

definition lower_char :: "char \<Rightarrow> char" where
  "lower_char c = (let n = (of_char c :: nat) in
     if (65 \<le> n \<and> n \<le> 90) \<or> (192 \<le> n \<and> n \<le> 222 \<and> n \<noteq> 215) then char_of (n + 32) else c)"

definition lower :: "string \<Rightarrow> string" where
  "lower s = map lower_char s"

text \<open>
  \<open>valider_format_date\<close> of \<open>ExtracteurIFC_R9\<close>: the pattern \<open>^\d{2}-\d{2}-\d{4}$\<close>,
  then \<open>strptime\<close> with \<open>%d-%m-%Y\<close>, which refuses what follows the ten characters (the
  newline that \<open>$\<close> lets through) and every date that \<open>datetime\<close> refuses.
\<close>

definition r9_valider_format_date :: "string \<Rightarrow> bool" where
  "r9_valider_format_date date_str =
     (if date_str = [] \<or> date_str = ''Non trouv'' @ e_acute \<or>
         date_str = ''Non sp'' @ e_acute @ ''cifi'' @ e_acute then False
      else case date_str of
        [d1, d2, t1, m1, m2, t2, y1, y2, y3, y4] \<Rightarrow>
          list_all isdecimal [d1, d2, m1, m2, y1, y2, y3, y4] \<and> t1 = CHR ''-'' \<and> t2 = CHR ''-'' \<and>
          datetime_ok (int (digits_value (map digit_val [y1, y2, y3, y4])))
            (int (digits_value (map digit_val [m1, m2])))
            (int (digits_value (map digit_val [d1, d2])))
      | _ \<Rightarrow> False)"

definition statuts_valides :: "string list" where
  "statuts_valides = [''neuf'', ''en usage'', ''r'' @ e_acute @ ''employ'' @ e_acute]"

definition msg_statut :: string where
  "msg_statut = ''Statut_usage doit '' @ e_circ @ ''tre l'' @ apos @ ''un de: ['' @ apos @
     ''neuf'' @ apos @ '', '' @ apos @ ''en usage'' @ apos @ '', '' @ apos @ ''r'' @ e_acute @
     ''employ'' @ e_acute @ apos @ '']''"

text \<open>\<open>valider_format_parametre\<close> of \<open>ExtracteurIFC_R9\<close>: \<open>(True, "")\<close> or
  \<open>(False, message)\<close>.\<close>

definition r9_valider_format_parametre ::
  "'f float_ops \<Rightarrow> string \<Rightarrow> 'f raw option \<Rightarrow> bool \<times> string" where
  "r9_valider_format_parametre F nom_param valeur =
     (case valeur of
        None \<Rightarrow> (False, ''Param'' @ e_grave @ ''tre '' @ nom_param @ '' est vide ou non trouv'' @ e_acute)
      | Some v \<Rightarrow>
          if v = RStr [] \<or> v = RStr (''Non trouv'' @ e_acute)
          then (False, ''Param'' @ e_grave @ ''tre '' @ nom_param @ '' est vide ou non trouv'' @ e_acute)
          else
            (let valeur_str = strip (py_str F v) in
             if nom_param = ''NOM'' then
               (if length valeur_str < 1
                then (False, ''NOM doit '' @ e_circ @ ''tre une cha'' @ [CHR 0xEE] @
                        ''ne de caract'' @ e_grave @ ''res non vide'')
                else (True, []))
             else if nom_param = ''ID'' then
               (if \<not> isdigit valeur_str \<or> length valeur_str \<noteq> 16
                then (False, ''ID doit '' @ e_circ @ ''tre un entier de 16 chiffres exactement'')
                else (True, []))
             else if nom_param = ''ID_maquette'' then
               (if \<not> isdigit valeur_str \<or> length valeur_str \<noteq> 12
                then (False, ''ID_maquette doit '' @ e_circ @ ''tre un entier de 12 chiffres exactement'')
                else (True, []))
             else if nom_param = ''Longueur_m'' then
               (case float_of F valeur_str of
                  None \<Rightarrow> (False, ''Longueur_m doit '' @ e_circ @ ''tre un nombre d'' @ e_acute @
                             ''cimal (ex: 12.23)'')
                | Some x \<Rightarrow> (True, []))
             else if nom_param = ''Statut_usage'' then
               (if lower valeur_str \<notin> set statuts_valides then (False, msg_statut) else (True, []))
             else if nom_param \<in> set [''Date_fabrication'', ''Date_mise_en_service'', ''Date_reemploi''] then
               (if \<not> r9_valider_format_date valeur_str
                then (False, nom_param @ '' doit '' @ e_circ @ ''tre au format DD-MM-YYYY (ex: 13-01-2001)'')
                else (True, []))
             else if nom_param = ''Empreinte_Carbone'' then
               (case float_of F valeur_str of
                  None \<Rightarrow> (False, ''Empreinte_Carbone doit '' @ e_circ @ ''tre un nombre (kg CO2 '' @
                             e_acute @ ''quivalent)'')
                | Some x \<Rightarrow> (True, []))
             else (True, [])))"

section \<open>The reference element\<close>

text \<open>
  The element of the end-to-end scenario: a beam with the eleven properties, and a
  source file that holds a given list of elements as its beams, a property set with the
  model identifier, and nothing typed at the prompts.
\<close>

definition element_reference :: "string \<Rightarrow> string element" where
  "element_reference statut = [
     (''NOM'', RStr ''poutre IPE 200''),
     (''ID'', RStr ''1111111111111111''),
     (''ID_maquette'', RStr ''123456789123''),
     (''Longueur_m'', RStr ''12.23''),
     (''Caracteristique_Materiau'', RStr ''S355''),
     (''Materiau'', RStr ''acier''),
     (''Statut usage'', RStr statut),
     (''Date de fabrication'', RStr ''13 01 2011''),
     (''date mise en service'', RStr ''14 02 2012''),
     (''Date de r'' @ e_acute @ ''employe'', RStr ''15 03 2020''),
     (''Empreinte Carbonne'', RStr ''400.0'')]"

definition reemploye :: string where
  "reemploye = ''r'' @ e_acute @ ''employ'' @ e_acute"

definition entrees_vides :: entrees where
  "entrees_vides = \<lparr>saisie_nom_maquette = [], saisie_nom_architecte = [],
     saisie_coordonnees = [], saisie_programme = [], saisie_date_livraison = [],
     date_du_jour = ''16 09 2025''\<rparr>"

definition modele_exemple :: "string element list \<Rightarrow> string modele" where
  "modele_exemple poutres =
     \<lparr>by_type = (\<lambda>t. if t = ''IfcBeam'' then poutres else []),
      property_sets = [[(''ID_maquette'', RStr ''123456789123'')]]\<rparr>"

definition fichier_exemple :: "string element list \<Rightarrow> string fichier" where
  "fichier_exemple poutres =
     \<lparr>contenu_fichier = encode_utf8 ''ISO-10303-21;'',
      ouverture = Inr (modele_exemple poutres),
      entrees_fichier = entrees_vides\<rparr>"

text \<open>The metadata collected for that file.\<close>

definition metadonnees_exemple :: "string valeur dict" where
  "metadonnees_exemple = [
     (''ID_maquette'', VStr ''123456789123''),
     (''nom_maquette'', VStr (''Diog'' @ e_grave @ ''ne'')),
     (''nom_architecte'', VStr ''Renzo Piano''),
     (''coordonnees_geographiques'', VStr ''46.5197/6.6323''),
     (''programme'', VStr ''Logement''),
     (''date livraison'', VStr ''16 09 2025''),
     (''date depot'', VStr ''16 09 2025'')]"

definition fichier_illisible :: "string fichier" where
  "fichier_illisible =
     \<lparr>contenu_fichier = [], ouverture = Inl (IfcError ''Unable to open file for reading''),
      entrees_fichier = entrees_vides\<rparr>"

text \<open>The lowercase hexadecimal digits.\<close>

definition is_hex_lower :: "char \<Rightarrow> bool" where
  "is_hex_lower c = (c \<in> set ''0123456789abcdef'')"

section \<open>Notions used in the statements\<close>

text \<open>A field of the schema is missing from an element when no value is found for it,
  also under the variants of its name, and malformed when the value found fails
  \<open>valider_format\<close>.\<close>

definition champ_manquant :: "'f element \<Rightarrow> string \<times> config \<Rightarrow> bool" where
  "champ_manquant element champ = (valeur_du_champ element (fst champ) = None)"

definition champ_malforme :: "'f float_ops \<Rightarrow> 'f element \<Rightarrow> string \<times> config \<Rightarrow> bool" where
  "champ_malforme F element champ =
     (case valeur_du_champ element (fst champ) of
        None \<Rightarrow> False
      | Some v \<Rightarrow> \<not> fst (valider_format F (Some v) (format (snd champ)) (fst champ)))"

text \<open>The message about a field that is missing or malformed.\<close>

definition message_du_champ :: "'f float_ops \<Rightarrow> 'f element \<Rightarrow> string \<times> config \<Rightarrow> erreur" where
  "message_du_champ F element champ =
     (case valeur_du_champ element (fst champ) of
        None \<Rightarrow> PROPRIETE_MANQUANTE (fst champ) (description (snd champ))
      | Some v \<Rightarrow>
          FORMAT_INVALIDE
            (str_valeur F (snd (valider_format F (Some v) (format (snd champ)) (fst champ)))))"

text \<open>The entry of the record for a field: its name and the canonical form of its value.\<close>

definition entree_du_champ ::
  "'f float_ops \<Rightarrow> 'f element \<Rightarrow> string \<times> config \<Rightarrow> string \<times> 'f valeur" where
  "entree_du_champ F element champ =
     (fst champ,
      snd (valider_format F (valeur_du_champ element (fst champ)) (format (snd champ)) (fst champ)))"

text \<open>An element is accepted by the extraction when no field of the schema is missing
  or malformed.\<close>

definition element_accepte :: "'f float_ops \<Rightarrow> 'f element \<Rightarrow> bool" where
  "element_accepte F element =
     list_all (\<lambda>champ. \<not> champ_manquant element champ \<and> \<not> champ_malforme F element champ)
       parametres_obligatoires"

text \<open>A file succeeds under a kind of processing when the operation of that kind
  returns the status \<open>success\<close> for it.\<close>

definition fichier_reussi :: "'f float_ops \<Rightarrow> string \<Rightarrow> 'f fichier \<Rightarrow> bool" where
  "fichier_reussi F type_traitement fichier =
     (status (snd (if type_traitement = ''maquette''
                   then traiter_fichier_maquette F [] fichier
                   else traiter_objet_unitaire F [] fichier)) = ''success'')"

text \<open>The folder of the model of the example file.\<close>

definition chemin_exemple :: string where
  "chemin_exemple = ''data/processed/maquettes/maquette_Diog'' @ e_grave @ ''ne_123456789123''"


section \<open>Fixed-digit identifiers\<close>

lemma isdecimal_isdigit_char: "isdecimal c \<Longrightarrow> isdigit_char c"
  by (simp add: isdecimal_def isdigit_char_def Let_def)

lemma list_all_isdecimal_isdigit: "list_all isdecimal s \<Longrightarrow> s \<noteq> [] \<Longrightarrow> isdigit s"
  by (induction s) (auto simp: isdigit_def isdecimal_isdigit_char list_all_iff)

text \<open>
  C7 (as amended). For the format \<open>16_chiffres\<close>: a value whose string form consists of
  sixteen ASCII decimal digits is accepted and returned unchanged; a value whose string
  form is empty or holds a character that \<open>str.isdigit\<close> refuses is rejected with the
  message that quotes the value; a value of digits only but of another length is rejected
  with the message that states the expected length 16 and the actual length.
\<close>

theorem valider_format_16_chiffres:
  "(list_all isdecimal (py_str F v) \<and> length (py_str F v) = 16 \<longrightarrow>
      valider_format F (Some v) ''16_chiffres'' nom = (True, VStr (py_str F v))) \<and>
   (\<not> isdigit (py_str F v) \<longrightarrow>
      valider_format F (Some v) ''16_chiffres'' nom = (False, VStr (msg_chiffres nom (py_str F v)))) \<and>
   (isdigit (py_str F v) \<and> length (py_str F v) \<noteq> 16 \<longrightarrow>
      valider_format F (Some v) ''16_chiffres'' nom =
        (False, VStr (msg_longueur nom 16 (length (py_str F v)))))"
proof -
  have "list_all isdecimal (py_str F v) \<and> length (py_str F v) = 16 \<Longrightarrow> isdigit (py_str F v)"
    using list_all_isdecimal_isdigit [of "py_str F v"] by (cases "py_str F v") auto
  then show ?thesis
    by (auto simp: valider_format_def valider_chiffres_def)
qed

theorem valider_format_16_chiffres_witness:
  "valider_format float_ops_exemple (Some (RStr ''1111111111111111'')) ''16_chiffres'' ''ID''
     = (True, VStr ''1111111111111111'') \<and>
   valider_format float_ops_exemple (Some (RStr ''12ab'')) ''16_chiffres'' ''ID''
     = (False, VStr (msg_chiffres ''ID'' ''12ab'')) \<and>
   valider_format float_ops_exemple (Some (RInt 123)) ''16_chiffres'' ''ID''
     = (False, VStr (msg_longueur ''ID'' 16 (length ''123'')))"
  using valider_format_16_chiffres [of float_ops_exemple "RStr ''1111111111111111''" "''ID''"]
    valider_format_16_chiffres [of float_ops_exemple "RStr ''12ab''" "''ID''"]
    valider_format_16_chiffres [of float_ops_exemple "RInt 123" "''ID''"]
  by (simp add: isdecimal_def isdigit_def isdigit_char_def str_int_def digit_char_def)

text \<open>
  C7 as stated fails: the value \<open>12ab\<close> is rejected with the message about digits, which
  quotes the value and states no length.
\<close>

theorem valider_format_16_chiffres_message_counterexample:
  "\<not> (list_all isdecimal ''12ab'' \<and> length ''12ab'' = 16) \<and>
   valider_format float_ops_exemple (Some (RStr ''12ab'')) ''16_chiffres'' ''ID''
     = (False, VStr (msg_chiffres ''ID'' ''12ab'')) \<and>
   msg_chiffres ''ID'' ''12ab'' \<noteq> msg_longueur ''ID'' 16 (length ''12ab'')"
  by (simp add: valider_format_def valider_chiffres_def isdigit_def isdigit_char_def
      msg_chiffres_def msg_longueur_def apos_def c_cedil_def)


section \<open>Dates\<close>

lemma isdecimal_not_space: "isdecimal c \<Longrightarrow> \<not> isspace c"
  by (auto simp: isdecimal_def isspace_def Let_def)

lemma isdecimal_not_sep:
  "isdecimal c \<Longrightarrow> c \<noteq> CHR ''-'' \<and> c \<noteq> CHR ''/'' \<and> c \<noteq> CHR ''+'' \<and> c \<noteq> CHR ''_''"
  by (auto simp: isdecimal_def Let_def)

lemma split_from_run:
  "list_all (\<lambda>c. \<not> isspace c) w \<Longrightarrow> split_from cur (w @ rest) = split_from (cur @ w) rest"
  by (induction w arbitrary: cur) auto

lemma split_three:
  assumes "j \<noteq> []" "m \<noteq> []" "a \<noteq> []"
    and "list_all (\<lambda>c. \<not> isspace c) j" "list_all (\<lambda>c. \<not> isspace c) m"
    and "list_all (\<lambda>c. \<not> isspace c) a"
  shows "split (j @ CHR '' '' # m @ CHR '' '' # a) = [j, m, a]"
proof -
  have sp: "isspace (CHR '' '')" by (simp add: isspace_def)
  have "split (j @ CHR '' '' # m @ CHR '' '' # a) = split_from j (CHR '' '' # m @ CHR '' '' # a)"
    using split_from_run [OF assms(4), of "[]"] by (simp add: split_def)
  also have "\<dots> = j # split_from [] (m @ CHR '' '' # a)"
    using assms(1) sp by simp
  also have "split_from [] (m @ CHR '' '' # a) = split_from m (CHR '' '' # a)"
    using split_from_run [OF assms(5), of "[]"] by simp
  also have "\<dots> = m # split_from [] (a @ [])"
    using assms(2) sp by simp
  also have "split_from [] (a @ []) = split_from a []"
    using split_from_run [OF assms(6), of "[]" "[]"] by simp
  also have "\<dots> = [a]" using assms(3) by simp
  finally show ?thesis .
qed

lemma strip_id:
  assumes "list_all (\<lambda>c. \<not> isspace c) s"
  shows "strip s = s"
proof -
  have a: "\<And>t. list_all (\<lambda>c. \<not> isspace c) t \<Longrightarrow> dropWhile isspace t = t"
    by (case_tac t) auto
  have "list_all (\<lambda>c. \<not> isspace c) (rev s)" using assms by (simp add: list_all_iff)
  then show ?thesis using a [of s] a [of "rev s"] assms by (simp add: strip_def)
qed

lemma int_digits_decimal:
  "s \<noteq> [] \<Longrightarrow> list_all isdecimal s \<Longrightarrow> int_digits s = Some (map digit_val s)"
proof (induction s rule: int_digits.induct)
  case 1
  then show ?case by simp
next
  case (2 c)
  then show ?case by simp
next
  case (3 c d r)
  then show ?case using isdecimal_not_sep [of d] by simp
qed

lemma py_int_decimal:
  assumes "s \<noteq> []" "list_all isdecimal s" "length s \<le> 4300"
  shows "py_int s = Some (int (digits_value (map digit_val s)))"
proof -
  have ns: "list_all (\<lambda>c. \<not> isspace c) s"
    using assms(2) isdecimal_not_space by (auto simp: list_all_iff)
  have hd: "hd s \<noteq> CHR ''-'' \<and> hd s \<noteq> CHR ''+''"
    using assms(1,2) isdecimal_not_sep [of "hd s"] by (cases s) auto
  show ?thesis
    using assms hd by (simp add: py_int_def strip_id [OF ns] int_digits_decimal Let_def)
qed

lemma date_clean_map:
  "replace_char (CHR ''/'') (CHR '' '') (replace_char (CHR ''-'') (CHR '' '') s) = map sep_to_space s"
  by (induction s) (auto simp: replace_char_def sep_to_space_def)

lemma sep_to_space_digits: "list_all isdecimal s \<Longrightarrow> map sep_to_space s = s"
  using isdecimal_not_sep by (induction s) (auto simp: sep_to_space_def)

lemma sep_to_space_sep:
  "c = CHR '' '' \<or> c = CHR ''-'' \<or> c = CHR ''/'' \<Longrightarrow> sep_to_space c = CHR '' ''"
  by (auto simp: sep_to_space_def)

lemma valider_date_accepts:
  assumes j: "jour \<noteq> []" "list_all isdecimal jour" "length jour \<le> 4300"
    and m: "mois \<noteq> []" "list_all isdecimal mois" "length mois \<le> 4300"
    and a: "annee \<noteq> []" "list_all isdecimal annee" "length annee \<le> 4300"
    and s1: "s1 = CHR '' '' \<or> s1 = CHR ''-'' \<or> s1 = CHR ''/''"
    and s2: "s2 = CHR '' '' \<or> s2 = CHR ''-'' \<or> s2 = CHR ''/''"
    and ok: "datetime_ok (int (digits_value (map digit_val annee)))
       (int (digits_value (map digit_val mois))) (int (digits_value (map digit_val jour)))"
  shows "valider_date (jour @ [s1] @ mois @ [s2] @ annee) nom
     = (True, VStr (jour @ '' '' @ mois @ '' '' @ annee))"
proof -
  let ?clean = "\<lambda>s. replace_char (CHR ''/'') (CHR '' '') (replace_char (CHR ''-'') (CHR '' '') s)"
  have c: "?clean (jour @ [s1] @ mois @ [s2] @ annee) = jour @ CHR '' '' # mois @ CHR '' '' # annee"
    using sep_to_space_digits [OF j(2)] sep_to_space_digits [OF m(2)]
      sep_to_space_digits [OF a(2)] sep_to_space_sep [OF s1] sep_to_space_sep [OF s2]
    by (simp add: date_clean_map)
  have ns: "list_all (\<lambda>c. \<not> isspace c) jour" "list_all (\<lambda>c. \<not> isspace c) mois"
    "list_all (\<lambda>c. \<not> isspace c) annee"
    using j(2) m(2) a(2) isdecimal_not_space by (auto simp: list_all_iff)
  have sp: "split (?clean (jour @ [s1] @ mois @ [s2] @ annee)) = [jour, mois, annee]"
    unfolding c using split_three [OF j(1) m(1) a(1) ns] .
  show ?thesis
    unfolding valider_date_def Let_def sp
    using py_int_decimal [OF j] py_int_decimal [OF m] py_int_decimal [OF a] ok
    by simp
qed

lemma valider_date_requires:
  assumes "fst (valider_date s nom :: bool \<times> 'f valeur)"
  shows "\<exists>jour mois annee y m d.
     split (replace_char (CHR ''/'') (CHR '' '') (replace_char (CHR ''-'') (CHR '' '') s))
       = [jour, mois, annee] \<and>
     py_int annee = Some y \<and> py_int mois = Some m \<and> py_int jour = Some d \<and>
     datetime_ok y m d \<and>
     (valider_date s nom :: bool \<times> 'f valeur) = (True, VStr (jour @ '' '' @ mois @ '' '' @ annee))"
  using assms unfolding valider_date_def Let_def
  by (auto split: list.splits option.splits if_splits)

text \<open>
  C6. The date format of \<open>valider_format\<close>: three components of decimal digits that
  are separated by a space, a hyphen or a slash and form a date that \<open>datetime\<close> accepts
  are accepted, and the canonical form is the three components joined by spaces; every
  accepted value splits, after hyphens and slashes have become spaces, into exactly three
  components that \<open>int\<close> reads and that form such a date, and its canonical form is these
  components joined by spaces; \<open>31 02 2020\<close> is rejected and \<open>13 01 2011\<close> is accepted
  with the canonical form \<open>13 01 2011\<close>.
\<close>

theorem validation_des_dates:
  "(jour \<noteq> [] \<and> list_all isdecimal jour \<and> length jour \<le> 4300 \<and>
    mois \<noteq> [] \<and> list_all isdecimal mois \<and> length mois \<le> 4300 \<and>
    annee \<noteq> [] \<and> list_all isdecimal annee \<and> length annee \<le> 4300 \<and>
    (s1 = CHR '' '' \<or> s1 = CHR ''-'' \<or> s1 = CHR ''/'') \<and>
    (s2 = CHR '' '' \<or> s2 = CHR ''-'' \<or> s2 = CHR ''/'') \<and>
    datetime_ok (int (digits_value (map digit_val annee)))
      (int (digits_value (map digit_val mois))) (int (digits_value (map digit_val jour))) \<longrightarrow>
    valider_format F (Some (RStr (jour @ [s1] @ mois @ [s2] @ annee))) ''date'' nom
      = (True, VStr (jour @ '' '' @ mois @ '' '' @ annee))) \<and>
   (fst (valider_format F (Some v) ''date'' nom) \<longrightarrow>
    (\<exists>j m a y mo d.
       split (replace_char (CHR ''/'') (CHR '' '') (replace_char (CHR ''-'') (CHR '' '') (py_str F v)))
         = [j, m, a] \<and>
       py_int a = Some y \<and> py_int m = Some mo \<and> py_int j = Some d \<and> datetime_ok y mo d \<and>
       valider_format F (Some v) ''date'' nom = (True, VStr (j @ '' '' @ m @ '' '' @ a)))) \<and>
   valider_format F (Some (RStr ''31 02 2020'')) ''date'' nom
     = (False, VStr (msg_date_invalide nom ''31 02 2020'')) \<and>
   valider_format F (Some (RStr ''13 01 2011'')) ''date'' nom = (True, VStr ''13 01 2011'')"
proof (intro conjI impI)
  assume h: "jour \<noteq> [] \<and> list_all isdecimal jour \<and> length jour \<le> 4300 \<and>
    mois \<noteq> [] \<and> list_all isdecimal mois \<and> length mois \<le> 4300 \<and>
    annee \<noteq> [] \<and> list_all isdecimal annee \<and> length annee \<le> 4300 \<and>
    (s1 = CHR '' '' \<or> s1 = CHR ''-'' \<or> s1 = CHR ''/'') \<and>
    (s2 = CHR '' '' \<or> s2 = CHR ''-'' \<or> s2 = CHR ''/'') \<and>
    datetime_ok (int (digits_value (map digit_val annee)))
      (int (digits_value (map digit_val mois))) (int (digits_value (map digit_val jour)))"
  have "(valider_date (jour @ [s1] @ mois @ [s2] @ annee) nom :: bool \<times> 'a valeur)
     = (True, VStr (jour @ '' '' @ mois @ '' '' @ annee))"
    by (rule valider_date_accepts) (use h in blast)+
  then show "valider_format F (Some (RStr (jour @ [s1] @ mois @ [s2] @ annee))) ''date'' nom
      = (True, VStr (jour @ '' '' @ mois @ '' '' @ annee))"
    by (simp add: valider_format_def)
next
  assume "fst (valider_format F (Some v) ''date'' nom)"
  then have "fst (valider_date (py_str F v) nom :: bool \<times> 'a valeur)"
    by (simp add: valider_format_def)
  from valider_date_requires [OF this]
  show "\<exists>j m a y mo d.
       split (replace_char (CHR ''/'') (CHR '' '') (replace_char (CHR ''-'') (CHR '' '') (py_str F v)))
         = [j, m, a] \<and>
       py_int a = Some y \<and> py_int m = Some mo \<and> py_int j = Some d \<and> datetime_ok y mo d \<and>
       valider_format F (Some v) ''date'' nom = (True, VStr (j @ '' '' @ m @ '' '' @ a))"
    by (simp add: valider_format_def)
next
  have 1: "py_int ''31'' = Some 31" "py_int ''02'' = Some 2" "py_int ''2020'' = Some 2020"
    by (simp_all add: py_int_def strip_def isspace_def isdecimal_def digit_val_def digits_value_def)
  show "valider_format F (Some (RStr ''31 02 2020'')) ''date'' nom
     = (False, VStr (msg_date_invalide nom ''31 02 2020''))"
    by (simp add: valider_format_def valider_date_def replace_char_def split_def isspace_def 1
        datetime_ok_def days_in_month_def is_leap_def)
next
  have 1: "py_int ''13'' = Some 13" "py_int ''01'' = Some 1" "py_int ''2011'' = Some 2011"
    by (simp_all add: py_int_def strip_def isspace_def isdecimal_def digit_val_def digits_value_def)
  show "valider_format F (Some (RStr ''13 01 2011'')) ''date'' nom = (True, VStr ''13 01 2011'')"
    by (simp add: valider_format_def valider_date_def replace_char_def split_def isspace_def 1
        datetime_ok_def days_in_month_def is_leap_def)
qed

theorem validation_des_dates_witness:
  "valider_format float_ops_exemple (Some (RStr ''29-02/2020'')) ''date'' ''Date de fabrication''
     = (True, VStr ''29 02 2020'') \<and>
   (\<exists>j m a y mo d.
      split (replace_char (CHR ''/'') (CHR '' '') (replace_char (CHR ''-'') (CHR '' '')
          (py_str float_ops_exemple (RStr ''13 01 2011''))))
        = [j, m, a] \<and>
      py_int a = Some y \<and> py_int m = Some mo \<and> py_int j = Some d \<and> datetime_ok y mo d \<and>
      valider_format float_ops_exemple (Some (RStr ''13 01 2011'')) ''date'' ''Date de fabrication''
        = (True, VStr (j @ '' '' @ m @ '' '' @ a)))"
proof -
  have ok: "datetime_ok (int (digits_value (map digit_val ''2020'')))
      (int (digits_value (map digit_val ''02''))) (int (digits_value (map digit_val ''29'')))"
    by (simp add: digits_value_def digit_val_def datetime_ok_def days_in_month_def is_leap_def)
  have dec: "list_all isdecimal ''29''" "list_all isdecimal ''02''" "list_all isdecimal ''2020''"
    by (simp_all add: isdecimal_def)
  note T = validation_des_dates [of "''29''" "''02''" "''2020''" "CHR ''-''" "CHR ''/''"
      float_ops_exemple "''Date de fabrication''" "RStr ''13 01 2011''"]
  have acc: "fst (valider_format float_ops_exemple (Some (RStr ''13 01 2011'')) ''date''
      ''Date de fabrication'')"
    using T [THEN conjunct2, THEN conjunct2, THEN conjunct2] by simp
  have 1: "valider_format float_ops_exemple (Some (RStr ''29-02/2020'')) ''date''
      ''Date de fabrication'' = (True, VStr ''29 02 2020'')"
    using T [THEN conjunct1] ok dec by simp
  show ?thesis
    using 1 T [THEN conjunct2, THEN conjunct1, rule_format, OF acc] by (rule conjI)
qed

section \<open>Letters-only names\<close>

lemma valider_lettres_residue:
  "valider_format F (Some v) ''lettres'' nom =
     (if filter (\<lambda>c. is_ascii_letter c \<or> isspace c) (py_str F v) = []
      then (False, VStr (msg_lettres nom (py_str F v)))
      else (True, VStr (strip (filter (\<lambda>c. is_ascii_letter c \<or> isspace c) (py_str F v)))))"
  by (simp add: valider_format_def valider_lettres_def Let_def)

text \<open>
  C8 fails on the code: the emptiness test comes before \<open>strip()\<close>, so a value of
  whitespace only passes it and is accepted with the empty string as its canonical form.
\<close>

theorem valider_format_lettres_blanc:
  "valider_format F (Some (RStr '' '')) ''lettres'' ''NOM'' = (True, VStr [])"
  by (simp add: valider_format_def valider_lettres_def strip_def isspace_def)


section \<open>Canonical serialization and digests\<close>

lemma filter_key_singleton:
  "distinct (map fst zs) \<Longrightarrow> k \<in> set zs \<Longrightarrow> filter (\<lambda>x. fst k = fst x) zs = [k]"
proof (induction zs)
  case Nil
  then show ?case by simp
next
  case (Cons z zs)
  show ?case
  proof (cases "k = z")
    case True
    have "filter (\<lambda>x. fst z = fst x) zs = []"
      using Cons.prems(1) by (auto simp: filter_empty_conv)
    with True show ?thesis by simp
  next
    case False
    with Cons.prems have k: "k \<in> set zs" by simp
    then have "fst k \<in> set (map fst zs)" by simp
    moreover have "fst z \<notin> set (map fst zs)" using Cons.prems(1) by simp
    ultimately have "fst k \<noteq> fst z" by metis
    with Cons.IH k Cons.prems(1) show ?thesis by simp
  qed
qed

lemma set_of_distinct_dict:
  assumes "distinct (map fst d1)" "distinct (map fst d2)" "map_of d1 = map_of d2"
  shows "set d1 = set d2"
proof -
  have "\<And>k v. (k, v) \<in> set d1 \<longleftrightarrow> (k, v) \<in> set d2"
    using assms by (metis map_of_eq_Some_iff)
  then show ?thesis by auto
qed

lemma sort_key_dict_unique:
  assumes d1: "distinct (map fst d1)" and d2: "distinct (map fst d2)"
    and eq: "map_of d1 = map_of d2"
  shows "sort_key fst d1 = sort_key fst d2"
proof (rule properties_for_sort_key)
  have s: "set d1 = set d2" using set_of_distinct_dict [OF d1 d2 eq] .
  have "distinct d1" "distinct d2" using d1 d2 by (simp_all add: distinct_map)
  then have m: "mset d1 = mset d2" using s by (simp add: set_eq_iff_mset_eq_distinct)
  show "mset (sort_key fst d2) = mset d1" using m by simp
  show "sorted (map fst (sort_key fst d2))" by simp
  fix k assume k: "k \<in> set (sort_key fst d2)"
  have "mset (map fst (sort_key fst d2)) = mset (map fst d2)" by simp
  then have ds: "distinct (map fst (sort_key fst d2))"
    using d2 by (metis mset_eq_imp_distinct_iff)
  have k1: "k \<in> set d1" using k s by simp
  show "filter (\<lambda>x. fst k = fst x) (sort_key fst d2) = filter (\<lambda>x. fst k = fst x) d1"
    using filter_key_singleton [OF ds k] filter_key_singleton [OF d1 k1] by simp
qed

lemma length_sha_round: "length (sha_round s kw) = length s"
  by (induction s kw rule: sha_round.induct) (simp_all add: Let_def)

lemma length_foldl_sha_round: "length (foldl sha_round s kws) = length s"
  by (induction kws arbitrary: s) (simp_all add: length_sha_round)

lemma length_sha_compress: "length (sha_compress hs blk) = length hs"
  by (simp add: sha_compress_def length_foldl_sha_round)

lemma length_foldl_sha_compress: "length (foldl sha_compress hs blks) = length hs"
  by (induction blks arbitrary: hs) (simp_all add: length_sha_compress)

lemma length_sha256: "length (sha256 msg) = 8"
  by (simp add: sha256_def length_foldl_sha_compress sha_H0_def)

lemma length_hexdigest: "length (hexdigest ws) = 8 * length ws"
  by (induction ws) (simp_all add: hexdigest_def hex32_def)

lemma length_sha256_hex: "length (sha256_hex msg) = 64"
  by (simp add: sha256_hex_def length_hexdigest length_sha256)

lemma hex_digit_lower: "n < 16 \<Longrightarrow> is_hex_lower (hex_digit n)"
proof -
  assume "n < 16"
  then have n: "n \<in> set [0..<16]" by simp
  have "list_all (\<lambda>n. is_hex_lower (hex_digit n)) [0..<16]" by code_simp
  with n show ?thesis unfolding list_all_iff by blast
qed

lemma hex32_lower: "list_all is_hex_lower (hex32 w)"
proof -
  have "\<And>m. unat (and (drop_bit m w) 15) < 16"
  proof -
    fix m
    have "and (drop_bit m w) 15 \<le> 15" by (rule word_and_le1)
    then show "unat (and (drop_bit m w) 15) < 16" by (simp add: word_le_nat_alt)
  qed
  then show ?thesis by (simp add: hex32_def list_all_iff hex_digit_lower)
qed

lemma hexdigest_lower: "list_all is_hex_lower (hexdigest ws)"
  by (induction ws) (simp_all add: hexdigest_def hex32_lower)

lemma sha256_abc:
  "sha256_hex (encode_utf8 ''abc'')
     = ''ba7816bf8f01cfea414140de5dae2223b00361a396177a9cb410ff61f20015ad''"
  by code_simp

text \<open>
  C1. Two dictionaries (distinct keys, any insertion order) with the same mapping from
  fields to values have the same serialization with sorted keys, the same bytes and the
  same digest; and the digest of any record is a string of 64 lowercase hexadecimal
  digits. \<open>calculer_hash_json\<close> is a function of the record alone, so hashing a record
  twice gives the same digest.
\<close>

theorem calculer_hash_json_ordre:
  "(distinct (map fst d1) \<and> distinct (map fst d2) \<and> map_of d1 = map_of d2 \<longrightarrow>
      dumps_sorted F d1 = dumps_sorted F d2 \<and>
      encode_utf8 (dumps_sorted F d1) = encode_utf8 (dumps_sorted F d2) \<and>
      calculer_hash_json F d1 = calculer_hash_json F d2) \<and>
   length (calculer_hash_json F d) = 64 \<and>
   list_all is_hex_lower (calculer_hash_json F d)"
proof (intro conjI impI)
  assume h: "distinct (map fst d1) \<and> distinct (map fst d2) \<and> map_of d1 = map_of d2"
  then have "sort_key fst d1 = sort_key fst d2"
    using sort_key_dict_unique [of d1 d2] by blast
  then show "dumps_sorted F d1 = dumps_sorted F d2"
    by (simp add: dumps_sorted_def)
  then show "encode_utf8 (dumps_sorted F d1) = encode_utf8 (dumps_sorted F d2)"
    and "calculer_hash_json F d1 = calculer_hash_json F d2"
    by (simp_all add: calculer_hash_json_def)
next
  show "length (calculer_hash_json F d) = 64"
    by (simp add: calculer_hash_json_def length_sha256_hex)
next
  show "list_all is_hex_lower (calculer_hash_json F d)"
    by (simp add: calculer_hash_json_def sha256_hex_def hexdigest_lower)
qed

theorem calculer_hash_json_ordre_witness:
  "dumps_sorted float_ops_exemple [(''b'', VFloat ''1.0''), (''a'', VFloat ''2.0'')]
     = dumps_sorted float_ops_exemple [(''a'', VFloat ''2.0''), (''b'', VFloat ''1.0'')] \<and>
   encode_utf8 (dumps_sorted float_ops_exemple [(''b'', VFloat ''1.0''), (''a'', VFloat ''2.0'')])
     = encode_utf8 (dumps_sorted float_ops_exemple [(''a'', VFloat ''2.0''), (''b'', VFloat ''1.0'')]) \<and>
   calculer_hash_json float_ops_exemple [(''b'', VFloat ''1.0''), (''a'', VFloat ''2.0'')]
     = calculer_hash_json float_ops_exemple [(''a'', VFloat ''2.0''), (''b'', VFloat ''1.0'')]"
proof -
  have m: "map_of [(''b'', VFloat ''1.0''), (''a'', VFloat ''2.0'')]
      = map_of [(''a'', VFloat ''2.0''), (''b'', VFloat ''1.0'' :: string valeur)]"
    by (auto simp: fun_eq_iff)
  show ?thesis
    using calculer_hash_json_ordre [of "[(''b'', VFloat ''1.0''), (''a'', VFloat ''2.0'')]"
        "[(''a'', VFloat ''2.0''), (''b'', VFloat ''1.0'')]" float_ops_exemple "[]"] m
    by simp
qed


section \<open>Dictionaries\<close>

lemma dict_get_dict_set:
  "dict_get (dict_set d k v) k' = (if k' = k then Some v else dict_get d k')"
  by (induction d) (auto simp: dict_get_def)

lemma keys_dict_set: "set (map fst (dict_set d k v)) = insert k (set (map fst d))"
proof (induction d)
  case Nil
  then show ?case by simp
next
  case (Cons a d)
  obtain k' v' where a: "a = (k', v')" by (cases a)
  show ?case using Cons unfolding a by (cases "k' = k") (simp_all add: insert_commute)
qed

lemma dict_set_new: "k \<notin> set (map fst d) \<Longrightarrow> dict_set d k v = d @ [(k, v)]"
  by (induction d) auto

lemma distinct_dict_set: "distinct (map fst d) \<Longrightarrow> distinct (map fst (dict_set d k v))"
proof (induction d)
  case Nil
  then show ?case by simp
next
  case (Cons a d)
  obtain k' v' where a: "a = (k', v')" by (cases a)
  show ?case
  proof (cases "k' = k")
    case True
    then show ?thesis using Cons.prems unfolding a by simp
  next
    case False
    have "k' \<notin> set (map fst (dict_set d k v))"
      using Cons.prems False unfolding keys_dict_set a by simp
    then show ?thesis using Cons False unfolding a by simp
  qed
qed

lemma filter_dict_set_new:
  "k \<notin> set (map fst d) \<Longrightarrow> filter (\<lambda>kv. fst kv \<noteq> k) (dict_set d k v) = d"
  by (induction d) auto

lemma dict_get_None: "k \<notin> set (map fst d) \<Longrightarrow> dict_get d k = None"
  by (simp add: dict_get_def map_of_eq_None_iff)

section \<open>The loop over the schema\<close>

lemma extraire_champ_echec:
  "champ_manquant element champ \<or> champ_malforme F element champ \<Longrightarrow>
   extraire_champ F element (p, e) champ = (p, e @ [message_du_champ F element champ])"
  by (auto simp: extraire_champ_def champ_manquant_def champ_malforme_def message_du_champ_def
      Let_def split: option.splits)

lemma extraire_champ_valide:
  "\<not> champ_manquant element champ \<Longrightarrow> \<not> champ_malforme F element champ \<Longrightarrow>
   extraire_champ F element (p, e) champ
     = (dict_set p (fst champ) (snd (entree_du_champ F element champ)), e)"
  by (auto simp: extraire_champ_def champ_manquant_def champ_malforme_def entree_du_champ_def
      Let_def split: option.splits)

lemma boucle_erreurs:
  "snd (foldl (extraire_champ F element) (p, e) schema)
     = e @ map (message_du_champ F element)
         (filter (\<lambda>c. champ_manquant element c \<or> champ_malforme F element c) schema)"
proof (induction schema arbitrary: p e)
  case Nil
  then show ?case by simp
next
  case (Cons c schema)
  show ?case
  proof (cases "champ_manquant element c \<or> champ_malforme F element c")
    case True
    then show ?thesis using Cons.IH extraire_champ_echec [OF True, of p e] by simp
  next
    case False
    then show ?thesis using Cons.IH extraire_champ_valide [of element c F p e] by simp
  qed
qed

lemma boucle_proprietes:
  "distinct (map fst p @ map fst schema) \<Longrightarrow>
   fst (foldl (extraire_champ F element) (p, e) schema)
     = p @ map (entree_du_champ F element)
         (filter (\<lambda>c. \<not> champ_manquant element c \<and> \<not> champ_malforme F element c) schema)"
proof (induction schema arbitrary: p e)
  case Nil
  then show ?case by simp
next
  case (Cons c schema)
  show ?case
  proof (cases "champ_manquant element c \<or> champ_malforme F element c")
    case True
    have d: "distinct (map fst p @ map fst schema)" using Cons.prems by simp
    show ?thesis using Cons.IH [OF d] extraire_champ_echec [OF True, of p e] True by auto
  next
    case False
    have new: "fst c \<notin> set (map fst p)" using Cons.prems by auto
    have eq: "dict_set p (fst c) (snd (entree_du_champ F element c)) = p @ [entree_du_champ F element c]"
      using dict_set_new [OF new] by (simp add: entree_du_champ_def)
    have d: "distinct (map fst (p @ [entree_du_champ F element c]) @ map fst schema)"
      using Cons.prems by (auto simp: entree_du_champ_def)
    show ?thesis
      using Cons.IH [OF d] extraire_champ_valide [of element c F p e] False eq by auto
  qed
qed

lemma distinct_parametres: "distinct (map fst parametres_obligatoires)"
  by (simp add: parametres_obligatoires_def e_acute_def)

lemma extraire_boucle_erreurs:
  "snd (extraire_boucle F schema element)
     = map (message_du_champ F element)
         (filter (\<lambda>c. champ_manquant element c \<or> champ_malforme F element c) schema)"
  using boucle_erreurs [of F element "[]" "[]" schema] by (simp add: extraire_boucle_def)

lemma extraire_boucle_proprietes:
  "distinct (map fst schema) \<Longrightarrow>
   fst (extraire_boucle F schema element)
     = map (entree_du_champ F element)
         (filter (\<lambda>c. \<not> champ_manquant element c \<and> \<not> champ_malforme F element c) schema)"
  using boucle_proprietes [of "[]" schema F element "[]"] by (simp add: extraire_boucle_def)

lemma accepte_iff_sans_erreur:
  "element_accepte F element \<longleftrightarrow> snd (extraire_boucle F parametres_obligatoires element) = []"
  by (auto simp: element_accepte_def extraire_boucle_erreurs filter_empty_conv list_all_iff)

lemma extraire_accepte:
  assumes "element_accepte F element"
  shows "extraire_toutes_proprietes_element F element
     = Inr (map (entree_du_champ F element) parametres_obligatoires, [])"
proof -
  have f: "filter (\<lambda>c. \<not> champ_manquant element c \<and> \<not> champ_malforme F element c)
      parametres_obligatoires = parametres_obligatoires"
    using assms by (simp add: element_accepte_def list_all_iff)
  show ?thesis
    using assms accepte_iff_sans_erreur [of F element]
      extraire_boucle_proprietes [OF distinct_parametres, of F element] f
    by (simp add: extraire_toutes_proprietes_element_def Let_def)
qed

lemma extraire_refuse:
  assumes "\<not> element_accepte F element"
  shows "extraire_toutes_proprietes_element F element
     = Inl (ValueError (msg_extraction
         (length (filter (\<lambda>c. champ_manquant element c \<or> champ_malforme F element c)
            parametres_obligatoires))))"
  using assms accepte_iff_sans_erreur [of F element]
  by (simp add: extraire_toutes_proprietes_element_def Let_def extraire_boucle_erreurs)


section \<open>One element\<close>

lemma lettres_VStr:
  "\<exists>s. snd (valider_format F (Some v) ''lettres'' nom) = VStr s"
  by (simp add: valider_format_def valider_lettres_def Let_def)

lemma accepte_champ:
  "element_accepte F element \<Longrightarrow> champ \<in> set parametres_obligatoires \<Longrightarrow>
   \<exists>v. valeur_du_champ element (fst champ) = Some v \<and>
       fst (valider_format F (Some v) (format (snd champ)) (fst champ))"
  by (auto simp: element_accepte_def list_all_iff champ_manquant_def champ_malforme_def
      split: option.splits)

lemma proprietes_NOM:
  assumes "element_accepte F element"
  shows "\<exists>s. dict_get (map (entree_du_champ F element) parametres_obligatoires) ''NOM''
     = Some (VStr s)"
proof -
  have "(''NOM'', \<lparr>type_attendu = PyStr, format = ''lettres'',
        description = ''Nom de l'' @ apos @ ''objet (lettres uniquement)''\<rparr>)
      \<in> set parametres_obligatoires"
    by (simp add: parametres_obligatoires_def)
  from accepte_champ [OF assms this]
  obtain v where v: "valeur_du_champ element ''NOM'' = Some v" by auto
  obtain s where "snd (valider_format F (Some v) ''lettres'' ''NOM'') = VStr s"
    using lettres_VStr by blast
  then show ?thesis
    using v by (simp add: parametres_obligatoires_def dict_get_def entree_du_champ_def)
qed

lemma proprietes_ID:
  "\<exists>v. dict_get (map (entree_du_champ F element) parametres_obligatoires) ''ID'' = Some v"
  by (simp add: parametres_obligatoires_def dict_get_def entree_du_champ_def)

lemma nom_de_fichier_accepte:
  assumes "element_accepte F element"
  shows "\<exists>nom_fichier. nom_de_fichier F
      (ajouter_hashs F contenu (map (entree_du_champ F element) parametres_obligatoires))
    = Inr nom_fichier"
proof -
  obtain s where s: "dict_get (map (entree_du_champ F element) parametres_obligatoires) ''NOM''
      = Some (VStr s)"
    using proprietes_NOM [OF assms] by blast
  obtain v where v: "dict_get (map (entree_du_champ F element) parametres_obligatoires) ''ID''
      = Some v"
    using proprietes_ID by blast
  show ?thesis
    using s v by (simp add: nom_de_fichier_def ajouter_hashs_def Let_def dict_get_dict_set)
qed

lemma traiter_element_accepte:
  assumes "element_accepte F element"
  shows "\<exists>nom_fichier.
     nom_de_fichier F
       (ajouter_hashs F contenu (map (entree_du_champ F element) parametres_obligatoires))
       = Inr nom_fichier \<and>
     traiter_element F contenu (sysfic, n, m) element
     = (ecrire_objet F contenu sysfic nom_fichier
          (ajouter_hashs F contenu (map (entree_du_champ F element) parametres_obligatoires)),
        n + 1, m)"
proof -
  obtain nom_fichier where nf: "nom_de_fichier F
      (ajouter_hashs F contenu (map (entree_du_champ F element) parametres_obligatoires))
    = Inr nom_fichier"
    using nom_de_fichier_accepte [OF assms] by blast
  have "traiter_element F contenu (sysfic, n, m) element
     = (ecrire_objet F contenu sysfic nom_fichier
          (ajouter_hashs F contenu (map (entree_du_champ F element) parametres_obligatoires)),
        n + 1, m)"
    using nf extraire_accepte [OF assms] by (simp add: traiter_element_def Let_def)
  with nf show ?thesis by blast
qed

lemma traiter_element_refuse:
  assumes "\<not> element_accepte F element"
  shows "traiter_element F contenu (sysfic, n, m) element = (sysfic, n, m + 1)"
  using extraire_refuse [OF assms] by (simp add: traiter_element_def Let_def)

lemma boucle_elements:
  "snd (foldl (traiter_element F contenu) (sysfic, n, m) elements)
     = (n + length (filter (element_accepte F) elements),
        m + length (filter (\<lambda>e. \<not> element_accepte F e) elements))"
proof (induction elements arbitrary: sysfic n m)
  case Nil
  then show ?case by simp
next
  case (Cons e elements)
  show ?case
  proof (cases "element_accepte F e")
    case True
    then obtain sysfic' where "traiter_element F contenu (sysfic, n, m) e = (sysfic', n + 1, m)"
      using traiter_element_accepte [OF True, of contenu sysfic n m] by blast
    then show ?thesis using Cons.IH [of sysfic' "n + 1" m] True by simp
  next
    case False
    then show ?thesis
      using Cons.IH [of sysfic n "m + 1"] traiter_element_refuse [OF False, of contenu sysfic n m]
      by simp
  qed
qed


section \<open>A file\<close>

lemma extraire_Inr:
  assumes "extraire_toutes_proprietes_element F element = Inr (proprietes, erreurs)"
  shows "element_accepte F element \<and>
     proprietes = map (entree_du_champ F element) parametres_obligatoires \<and> erreurs = []"
proof (cases "element_accepte F element")
  case True
  then show ?thesis using assms extraire_accepte [OF True] by simp
next
  case False
  then show ?thesis using assms extraire_refuse [OF False] by simp
qed

lemma cles_proprietes:
  "map fst (map (entree_du_champ F element) parametres_obligatoires)
     = map fst parametres_obligatoires"
  by (simp add: entree_du_champ_def)

lemma deux_passes_dict:
  assumes "k2 \<notin> set (map fst d)" "k1 \<noteq> k2"
  shows "dict_get (dict_set (dict_set d k1 v1) k2 v2) k1 = Some v1"
    and "dict_get (dict_set (dict_set d k1 v1) k2 v2) k2 = Some v2"
    and "filter (\<lambda>kv. fst kv \<noteq> k2) (dict_set (dict_set d k1 v1) k2 v2) = dict_set d k1 v1"
    and "dict_get (dict_set d k1 v1) k1 = Some v1"
    and "dict_get (dict_set d k1 v1) k2 = None"
proof -
  have n: "k2 \<notin> set (map fst (dict_set d k1 v1))"
    using assms unfolding keys_dict_set by simp
  show "dict_get (dict_set (dict_set d k1 v1) k2 v2) k1 = Some v1"
    using assms(2) by (simp add: dict_get_dict_set)
  show "dict_get (dict_set (dict_set d k1 v1) k2 v2) k2 = Some v2"
    by (simp add: dict_get_dict_set)
  show "filter (\<lambda>kv. fst kv \<noteq> k2) (dict_set (dict_set d k1 v1) k2 v2) = dict_set d k1 v1"
    using filter_dict_set_new [OF n] .
  show "dict_get (dict_set d k1 v1) k1 = Some v1" by (simp add: dict_get_dict_set)
  show "dict_get (dict_set d k1 v1) k2 = None" using dict_get_None [OF n] .
qed

lemma hash_json_pas_un_champ: "''hash_json'' \<notin> set (map fst parametres_obligatoires)"
  by (simp add: parametres_obligatoires_def)

lemma collecter_cles:
  assumes "collecter_metadonnees_maquette F modele_ifc env = Inr metadonnees"
  shows "map fst metadonnees = [''ID_maquette'', ''nom_maquette'', ''nom_architecte'',
     ''coordonnees_geographiques'', ''programme'', ''date livraison'', ''date depot'']"
  using assms by (auto simp: collecter_metadonnees_maquette_def split: option.splits)

lemma boucle_elements_fst:
  "fst (snd (foldl (traiter_element F contenu) (sysfic, n, m) elements))
     = n + length (filter (element_accepte F) elements)"
  and boucle_elements_snd:
  "snd (snd (foldl (traiter_element F contenu) (sysfic, n, m) elements))
     = m + length (filter (\<lambda>e. \<not> element_accepte F e) elements)"
  using boucle_elements [of F contenu sysfic n m elements] by simp_all

lemma traiter_fichier_maquette_illisible:
  "ouverture fichier = Inl ex \<Longrightarrow>
   traiter_fichier_maquette F sysfic fichier = (sysfic, Erreur (str_exn ex))"
  by (simp add: traiter_fichier_maquette_def)

lemma traiter_fichier_maquette_resultat:
  "snd (traiter_fichier_maquette F sysfic fichier) =
     (case ouverture fichier of
        Inl e \<Rightarrow> Erreur (str_exn e)
      | Inr modele_ifc \<Rightarrow>
          (case collecter_metadonnees_maquette F modele_ifc (entrees_fichier fichier) of
             Inl e \<Rightarrow> Erreur (str_exn e)
           | Inr metadonnees \<Rightarrow>
               (let elements = concat (map (by_type modele_ifc) types_elements);
                    objets_crees = length (filter (element_accepte F) elements);
                    erreurs_totales = length (filter (\<lambda>e. \<not> element_accepte F e) elements)
                in if objets_crees = 0 then Erreur (msg_aucun_objet erreurs_totales)
                   else Succes_maquette objets_crees erreurs_totales
                     (maquettes_dir @ ''/maquette_'' @
                      nettoyer_nom (case dict_get metadonnees ''nom_maquette'' of
                                      Some v \<Rightarrow> str_valeur F v | None \<Rightarrow> []) @ ''_'' @
                      (case dict_get metadonnees ''ID_maquette'' of
                         Some v \<Rightarrow> str_valeur F v | None \<Rightarrow> [])))))"
  by (simp add: traiter_fichier_maquette_def Let_def boucle_elements_fst boucle_elements_snd
      split: sum.splits)

lemma traiter_fichier_maquette_sans_sysfic:
  "snd (traiter_fichier_maquette F sysfic fichier) = snd (traiter_fichier_maquette F [] fichier)"
  by (simp add: traiter_fichier_maquette_resultat)

lemma traiter_objet_unitaire_sans_sysfic:
  "snd (traiter_objet_unitaire F sysfic fichier) = snd (traiter_objet_unitaire F [] fichier)"
  by (simp add: traiter_objet_unitaire_def Let_def split: sum.splits option.splits prod.splits)

lemma traiter_un_fichier_stats:
  "total (snd (traiter_un_fichier F t (sysfic, st) fichier)) = total st \<and>
   success (snd (traiter_un_fichier F t (sysfic, st) fichier))
     = (if fichier_reussi F t fichier then success st + 1 else success st) \<and>
   errors (snd (traiter_un_fichier F t (sysfic, st) fichier))
     = (if fichier_reussi F t fichier then errors st else errors st + 1)"
  using traiter_fichier_maquette_sans_sysfic [of F sysfic fichier]
    traiter_objet_unitaire_sans_sysfic [of F sysfic fichier]
  by (simp add: traiter_un_fichier_def fichier_reussi_def Let_def)

lemma boucle_fichiers:
  "total (snd (foldl (traiter_un_fichier F t) (sysfic, st) fichiers)) = total st \<and>
   success (snd (foldl (traiter_un_fichier F t) (sysfic, st) fichiers))
     = success st + length (filter (fichier_reussi F t) fichiers) \<and>
   errors (snd (foldl (traiter_un_fichier F t) (sysfic, st) fichiers))
     = errors st + length (filter (\<lambda>f. \<not> fichier_reussi F t f) fichiers)"
proof (induction fichiers arbitrary: sysfic st)
  case Nil
  then show ?case by simp
next
  case (Cons f fichiers)
  obtain sysfic' st' where s: "traiter_un_fichier F t (sysfic, st) f = (sysfic', st')"
    by (cases "traiter_un_fichier F t (sysfic, st) f")
  show ?case
    using Cons.IH [of sysfic' st'] s traiter_un_fichier_stats [of F t sysfic st f] by simp
qed

section \<open>All-or-nothing extraction\<close>

text \<open>
  What \<open>extraire_toutes_proprietes_element\<close> does: its loop visits every field of
  the schema and collects exactly one message for every field that is missing or
  malformed, in the order of the schema. When the list of messages is not empty the
  function raises a \<open>ValueError\<close> whose text gives the number of messages, and
  \<open>traiter_fichier_maquette\<close> counts one error for the element and writes nothing.
  When the list is empty the function returns the record of all the fields of the schema
  with an empty list.
\<close>

lemma extraction_tout_ou_rien:
  "snd (extraire_boucle F parametres_obligatoires element)
     = map (message_du_champ F element)
         (filter (\<lambda>c. champ_manquant element c \<or> champ_malforme F element c)
            parametres_obligatoires) \<and>
   (snd (extraire_boucle F parametres_obligatoires element) \<noteq> [] \<longrightarrow>
      extraire_toutes_proprietes_element F element
        = Inl (ValueError (msg_extraction
            (length (snd (extraire_boucle F parametres_obligatoires element))))) \<and>
      traiter_element F contenu (sysfic, n, m) element = (sysfic, n, m + 1)) \<and>
   (snd (extraire_boucle F parametres_obligatoires element) = [] \<longrightarrow>
      extraire_toutes_proprietes_element F element
        = Inr (map (entree_du_champ F element) parametres_obligatoires, []))"
proof (intro conjI impI)
  show "snd (extraire_boucle F parametres_obligatoires element)
     = map (message_du_champ F element)
         (filter (\<lambda>c. champ_manquant element c \<or> champ_malforme F element c)
            parametres_obligatoires)"
    by (rule extraire_boucle_erreurs)
next
  assume "snd (extraire_boucle F parametres_obligatoires element) \<noteq> []"
  then have r: "\<not> element_accepte F element" by (simp add: accepte_iff_sans_erreur)
  show "extraire_toutes_proprietes_element F element
        = Inl (ValueError (msg_extraction
            (length (snd (extraire_boucle F parametres_obligatoires element)))))"
    using extraire_refuse [OF r] by (simp add: extraire_boucle_erreurs)
  show "traiter_element F contenu (sysfic, n, m) element = (sysfic, n, m + 1)"
    by (rule traiter_element_refuse [OF r])
next
  assume "snd (extraire_boucle F parametres_obligatoires element) = []"
  then have "element_accepte F element" by (simp add: accepte_iff_sans_erreur)
  then show "extraire_toutes_proprietes_element F element
        = Inr (map (entree_du_champ F element) parametres_obligatoires, [])"
    by (rule extraire_accepte)
qed

lemma reference_acceptee: "element_accepte float_ops_exemple (element_reference reemploye)"
  by code_simp

lemma demoli_accepte: "element_accepte float_ops_exemple (element_reference ''demoli'')"
  by code_simp

lemma sans_NOM_erreurs:
  "snd (extraire_boucle float_ops_exemple parametres_obligatoires (tl (element_reference reemploye)))
   = [PROPRIETE_MANQUANTE ''NOM'' (''Nom de l'' @ apos @ ''objet (lettres uniquement)'')]"
  by code_simp

text \<open>
  C4 fails on the code. For the reference element without its name the loop collects the
  one message about the missing name, but \<open>extraire_toutes_proprietes_element\<close> does
  not return it: it raises a \<open>ValueError\<close> that carries only the number of messages,
  the same exception as for the element without its identifier, whose message is
  another one. Neither caller receives the list: \<open>traiter_fichier_maquette\<close> counts
  one error, and \<open>traiter_objet_unitaire\<close> returns the text of the exception.
\<close>

theorem extraction_leve_une_exception:
  "snd (extraire_boucle float_ops_exemple parametres_obligatoires (tl (element_reference reemploye)))
     = [PROPRIETE_MANQUANTE ''NOM'' (''Nom de l'' @ apos @ ''objet (lettres uniquement)'')] \<and>
   extraire_toutes_proprietes_element float_ops_exemple (tl (element_reference reemploye))
     = Inl (ValueError (msg_extraction 1)) \<and>
   snd (extraire_boucle float_ops_exemple parametres_obligatoires
          (hd (element_reference reemploye) # drop 2 (element_reference reemploye)))
     = [PROPRIETE_MANQUANTE ''ID'' (''ID '' @ a_grave @ '' 16 chiffres'')] \<and>
   extraire_toutes_proprietes_element float_ops_exemple
       (hd (element_reference reemploye) # drop 2 (element_reference reemploye))
     = Inl (ValueError (msg_extraction 1)) \<and>
   traiter_element float_ops_exemple [] ([], 0, 0) (tl (element_reference reemploye))
     = ([], 0, 1) \<and>
   traiter_objet_unitaire float_ops_exemple [] (fichier_exemple [tl (element_reference reemploye)])
     = ([], Erreur (msg_extraction 1))"
  by code_simp


section \<open>The two hashes of a record\<close>

text \<open>
  C2. For every element that the extraction accepts, the element step of
  \<open>traiter_fichier_maquette\<close> counts one object and writes the record with its two
  hashes; \<open>hash_ifc\<close> of that record is the digest of the bytes of the source file;
  \<open>hash_json\<close> is the digest of the record without its field \<open>hash_json\<close>, and
  that input is the extracted record with \<open>hash_ifc\<close> added: it holds \<open>hash_ifc\<close>
  and no \<open>hash_json\<close>. The metadata of the model get \<open>hash_maquette_ifc\<close> and
  \<open>hash_maquette_json\<close> in the same order.
\<close>

theorem hash_en_deux_passes:
  "(extraire_toutes_proprietes_element F element = Inr (proprietes, erreurs) \<longrightarrow>
      (\<exists>nom_fichier.
         traiter_element F contenu (sysfic, n, m) element
           = (ecrire_objet F contenu sysfic nom_fichier (ajouter_hashs F contenu proprietes),
              n + 1, m)) \<and>
      dict_get (ajouter_hashs F contenu proprietes) ''hash_ifc'' = Some (VStr (sha256_hex contenu)) \<and>
      dict_get (ajouter_hashs F contenu proprietes) ''hash_json''
        = Some (VStr (calculer_hash_json F
            (filter (\<lambda>kv. fst kv \<noteq> ''hash_json'') (ajouter_hashs F contenu proprietes)))) \<and>
      filter (\<lambda>kv. fst kv \<noteq> ''hash_json'') (ajouter_hashs F contenu proprietes)
        = dict_set proprietes ''hash_ifc'' (VStr (sha256_hex contenu)) \<and>
      dict_get (dict_set proprietes ''hash_ifc'' (VStr (sha256_hex contenu))) ''hash_ifc''
        = Some (VStr (sha256_hex contenu)) \<and>
      dict_get (dict_set proprietes ''hash_ifc'' (VStr (sha256_hex contenu))) ''hash_json'' = None) \<and>
   (collecter_metadonnees_maquette F modele_ifc env = Inr metadonnees \<longrightarrow>
      dict_get (ajouter_hashs_maquette F contenu metadonnees) ''hash_maquette_ifc''
        = Some (VStr (sha256_hex contenu)) \<and>
      dict_get (ajouter_hashs_maquette F contenu metadonnees) ''hash_maquette_json''
        = Some (VStr (calculer_hash_json F
            (filter (\<lambda>kv. fst kv \<noteq> ''hash_maquette_json'')
               (ajouter_hashs_maquette F contenu metadonnees)))) \<and>
      filter (\<lambda>kv. fst kv \<noteq> ''hash_maquette_json'') (ajouter_hashs_maquette F contenu metadonnees)
        = dict_set metadonnees ''hash_maquette_ifc'' (VStr (sha256_hex contenu)) \<and>
      dict_get (dict_set metadonnees ''hash_maquette_ifc'' (VStr (sha256_hex contenu)))
        ''hash_maquette_json'' = None)"
proof (intro conjI impI)
  assume h: "extraire_toutes_proprietes_element F element = Inr (proprietes, erreurs)"
  note e = extraire_Inr [OF h]
  have p: "proprietes = map (entree_du_champ F element) parametres_obligatoires"
    using e by simp
  have k: "''hash_json'' \<notin> set (map fst proprietes)"
    unfolding p cles_proprietes by (rule hash_json_pas_un_champ)
  have ne: "''hash_ifc'' \<noteq> ''hash_json''" by simp
  note d = deux_passes_dict [OF k ne]
  show "\<exists>nom_fichier.
         traiter_element F contenu (sysfic, n, m) element
           = (ecrire_objet F contenu sysfic nom_fichier (ajouter_hashs F contenu proprietes),
              n + 1, m)"
    using traiter_element_accepte [of F element contenu sysfic n m] e unfolding p by blast
  show "dict_get (ajouter_hashs F contenu proprietes) ''hash_ifc'' = Some (VStr (sha256_hex contenu))"
    using d(1) by (simp add: ajouter_hashs_def calculer_hash_fichier_def Let_def)
  show f: "filter (\<lambda>kv. fst kv \<noteq> ''hash_json'') (ajouter_hashs F contenu proprietes)
        = dict_set proprietes ''hash_ifc'' (VStr (sha256_hex contenu))"
    using d(3) by (simp add: ajouter_hashs_def calculer_hash_fichier_def Let_def)
  show "dict_get (ajouter_hashs F contenu proprietes) ''hash_json''
        = Some (VStr (calculer_hash_json F
            (filter (\<lambda>kv. fst kv \<noteq> ''hash_json'') (ajouter_hashs F contenu proprietes))))"
    unfolding f using d(2) by (simp add: ajouter_hashs_def calculer_hash_fichier_def Let_def)
  show "dict_get (dict_set proprietes ''hash_ifc'' (VStr (sha256_hex contenu))) ''hash_ifc''
        = Some (VStr (sha256_hex contenu))"
    using d(4) .
  show "dict_get (dict_set proprietes ''hash_ifc'' (VStr (sha256_hex contenu))) ''hash_json'' = None"
    using d(5) .
next
  assume h: "collecter_metadonnees_maquette F modele_ifc env = Inr metadonnees"
  have k: "''hash_maquette_json'' \<notin> set (map fst metadonnees)"
    unfolding collecter_cles [OF h] by simp
  have ne: "''hash_maquette_ifc'' \<noteq> ''hash_maquette_json''" by simp
  note d = deux_passes_dict [OF k ne]
  show "dict_get (ajouter_hashs_maquette F contenu metadonnees) ''hash_maquette_ifc''
        = Some (VStr (sha256_hex contenu))"
    using d(1) by (simp add: ajouter_hashs_maquette_def calculer_hash_fichier_def Let_def)
  show f: "filter (\<lambda>kv. fst kv \<noteq> ''hash_maquette_json'') (ajouter_hashs_maquette F contenu metadonnees)
        = dict_set metadonnees ''hash_maquette_ifc'' (VStr (sha256_hex contenu))"
    using d(3) by (simp add: ajouter_hashs_maquette_def calculer_hash_fichier_def Let_def)
  show "dict_get (ajouter_hashs_maquette F contenu metadonnees) ''hash_maquette_json''
        = Some (VStr (calculer_hash_json F
            (filter (\<lambda>kv. fst kv \<noteq> ''hash_maquette_json'')
               (ajouter_hashs_maquette F contenu metadonnees))))"
    unfolding f using d(2)
    by (simp add: ajouter_hashs_maquette_def calculer_hash_fichier_def Let_def)
  show "dict_get (dict_set metadonnees ''hash_maquette_ifc'' (VStr (sha256_hex contenu)))
        ''hash_maquette_json'' = None"
    using d(5) .
qed

lemma collecter_exemple:
  "collecter_metadonnees_maquette float_ops_exemple (modele_exemple poutres) entrees_vides
     = Inr metadonnees_exemple"
  by (simp add: collecter_metadonnees_maquette_def chercher_id_maquette_def modele_exemple_def
      entrees_vides_def metadonnees_exemple_def saisie_ou_def strip_def isdigit_def
      isdigit_char_def)


theorem hash_en_deux_passes_witness:
  "dict_get (ajouter_hashs float_ops_exemple []
       (map (entree_du_champ float_ops_exemple (element_reference reemploye))
          parametres_obligatoires)) ''hash_json''
     = Some (VStr (calculer_hash_json float_ops_exemple
         (filter (\<lambda>kv. fst kv \<noteq> ''hash_json'')
            (ajouter_hashs float_ops_exemple []
               (map (entree_du_champ float_ops_exemple (element_reference reemploye))
                  parametres_obligatoires))))) \<and>
   dict_get (ajouter_hashs_maquette float_ops_exemple [] metadonnees_exemple)
       ''hash_maquette_json''
     = Some (VStr (calculer_hash_json float_ops_exemple
         (filter (\<lambda>kv. fst kv \<noteq> ''hash_maquette_json'')
            (ajouter_hashs_maquette float_ops_exemple [] metadonnees_exemple))))"
proof -
  note T = hash_en_deux_passes [where F = float_ops_exemple
      and element = "element_reference reemploye"
      and proprietes = "map (entree_du_champ float_ops_exemple (element_reference reemploye))
          parametres_obligatoires"
      and erreurs = "[]" and contenu = "[]" and sysfic = "[]" and n = 0 and m = 0
      and modele_ifc = "modele_exemple []" and env = entrees_vides
      and metadonnees = metadonnees_exemple]
  note a = extraire_accepte [OF reference_acceptee]
  note b = collecter_exemple [of "[]"]
  from T [THEN conjunct1, rule_format, OF a] T [THEN conjunct2, rule_format, OF b]
  show ?thesis by blast
qed

section \<open>Files and batches\<close>

lemma resultat_exemple:
  "snd (traiter_fichier_maquette float_ops_exemple sysfic (fichier_exemple poutres)) =
     (if filter (element_accepte float_ops_exemple) poutres = []
      then Erreur (msg_aucun_objet
             (length (filter (\<lambda>e. \<not> element_accepte float_ops_exemple e) poutres)))
      else Succes_maquette (length (filter (element_accepte float_ops_exemple) poutres))
             (length (filter (\<lambda>e. \<not> element_accepte float_ops_exemple e) poutres))
             chemin_exemple)"
proof -
  have els: "concat (map (by_type (modele_exemple poutres)) types_elements) = poutres"
    by (simp add: modele_exemple_def types_elements_def)
  have ch1: "nettoyer_nom (case dict_get metadonnees_exemple ''nom_maquette'' of
                      Some v \<Rightarrow> str_valeur float_ops_exemple v | None \<Rightarrow> [])
      = ''Diog'' @ e_grave @ ''ne''"
    by (simp add: metadonnees_exemple_def dict_get_def nettoyer_nom_def is_word_char_def
        e_grave_def)
  have ch2: "(case dict_get metadonnees_exemple ''ID_maquette'' of
         Some v \<Rightarrow> str_valeur float_ops_exemple v | None \<Rightarrow> []) = ''123456789123''"
    by (simp add: metadonnees_exemple_def dict_get_def)
  show ?thesis
    unfolding traiter_fichier_maquette_resultat
    by (simp add: fichier_exemple_def collecter_exemple els ch1 ch2 Let_def maquettes_dir_def
        chemin_exemple_def e_grave_def)
qed

lemma sans_NOM_refuse:
  "\<not> element_accepte float_ops_exemple (tl (element_reference reemploye))"
  by (simp add: accepte_iff_sans_erreur sans_NOM_erreurs)

text \<open>
  C3 fails on \<open>traiter_fichier_maquette\<close>: of two elements, each with the eleven
  properties of the reference element and so both with the identifier
  \<open>1111111111111111\<close>, both are accepted (two objects created, no rejection).
\<close>

theorem doublon_accepte:
  "snd (traiter_fichier_maquette float_ops_exemple []
          (fichier_exemple [element_reference reemploye, element_reference reemploye]))
     = Succes_maquette 2 0 chemin_exemple"
  by (simp add: resultat_exemple reference_acceptee)

text \<open>
  C5 fails on \<open>IFC_extractor_5.4.py\<close>: the usage status is validated as free text, so
  \<open>demoli\<close> is accepted, and the file with the reference element of that status gives
  one created object and no rejection.
\<close>

theorem statut_demoli_accepte:
  "valider_format float_ops_exemple (Some (RStr ''demoli'')) ''texte'' ''Statut usage''
     = (True, VStr ''demoli'') \<and>
   snd (traiter_fichier_maquette float_ops_exemple [] (fichier_exemple [element_reference ''demoli'']))
     = Succes_maquette 1 0 chemin_exemple"
proof
  show "valider_format float_ops_exemple (Some (RStr ''demoli'')) ''texte'' ''Statut usage''
     = (True, VStr ''demoli'')"
    by code_simp
  show "snd (traiter_fichier_maquette float_ops_exemple [] (fichier_exemple [element_reference ''demoli'']))
     = Succes_maquette 1 0 chemin_exemple"
    by (simp add: resultat_exemple demoli_accepte)
qed

text \<open>The validator of the earlier extractor does enforce the three values (after
  \<open>strip\<close> and \<open>lower\<close>).\<close>

lemma r9_statut_usage:
  "fst (r9_valider_format_parametre F ''Statut_usage'' (Some v))
     \<longleftrightarrow> lower (strip (py_str F v)) \<in> set statuts_valides"
proof -
  have 1: "lower (strip []) \<notin> set statuts_valides"
    by code_simp
  have 2: "lower (strip (''Non trouv'' @ e_acute)) \<notin> set statuts_valides"
    by code_simp
  show ?thesis
    using 1 2 by (auto simp: r9_valider_format_parametre_def Let_def)
qed


text \<open>
  C9. A file that cannot be opened gives the status \<open>error\<close> (and nothing is
  written). The counter \<open>objets_crees\<close> after the loop over the elements is the number
  of accepted elements, and when it is zero the file gives the status \<open>error\<close>.
  \<open>traiter_tous_fichiers\<close> on a non-empty list of files returns statistics in which
  every file is counted: the successes are the files that succeed on their own, the
  errors are all the others, whatever failed before them.
\<close>

theorem echec_de_fichier_sans_abandon:
  "(ouverture fichier = Inl ex \<longrightarrow>
      traiter_fichier_maquette F sysfic fichier = (sysfic, Erreur (str_exn ex)) \<and>
      status (snd (traiter_fichier_maquette F sysfic fichier)) = ''error'') \<and>
   fst (snd (foldl (traiter_element F contenu) (sysfic, 0, 0) elements))
     = length (filter (element_accepte F) elements) \<and>
   (ouverture fichier = Inr modele_ifc \<and>
    fst (snd (foldl (traiter_element F (contenu_fichier fichier)) (sysfic, 0, 0)
       (concat (map (by_type modele_ifc) types_elements)))) = 0 \<longrightarrow>
      status (snd (traiter_fichier_maquette F sysfic fichier)) = ''error'') \<and>
   (fichiers \<noteq> [] \<longrightarrow>
      (\<exists>sysfic' st. traiter_tous_fichiers F sysfic fichiers type_traitement = (sysfic', Some st) \<and>
         total st = length fichiers \<and>
         success st = length (filter (fichier_reussi F type_traitement) fichiers) \<and>
         errors st = length (filter (\<lambda>f. \<not> fichier_reussi F type_traitement f) fichiers) \<and>
         success st + errors st = length fichiers))"
proof (intro conjI impI)
  assume "ouverture fichier = Inl ex"
  then show "traiter_fichier_maquette F sysfic fichier = (sysfic, Erreur (str_exn ex))"
    and "status (snd (traiter_fichier_maquette F sysfic fichier)) = ''error''"
    by (simp_all add: traiter_fichier_maquette_illisible)
next
  show "fst (snd (foldl (traiter_element F contenu) (sysfic, 0, 0) elements))
     = length (filter (element_accepte F) elements)"
    by (simp add: boucle_elements_fst)
next
  assume h: "ouverture fichier = Inr modele_ifc \<and>
    fst (snd (foldl (traiter_element F (contenu_fichier fichier)) (sysfic, 0, 0)
       (concat (map (by_type modele_ifc) types_elements)))) = 0"
  then have z: "length (filter (element_accepte F)
      (concat (map (by_type modele_ifc) types_elements))) = 0"
    by (simp add: boucle_elements_fst)
  show "status (snd (traiter_fichier_maquette F sysfic fichier)) = ''error''"
    unfolding traiter_fichier_maquette_resultat using h z
    by (simp add: Let_def split: sum.splits)
next
  assume ne: "fichiers \<noteq> []"
  let ?st0 = "\<lparr>total = length fichiers, success = 0, errors = 0,
      stat_objets_crees = 0, stat_objets_ignores = 0\<rparr>"
  let ?etat = "foldl (traiter_un_fichier F type_traitement) (sysfic, ?st0) fichiers"
  note b = boucle_fichiers [of F type_traitement sysfic ?st0 fichiers]
  have t: "traiter_tous_fichiers F sysfic fichiers type_traitement = (fst ?etat, Some (snd ?etat))"
    using ne by (simp add: traiter_tous_fichiers_def Let_def)
  have s: "length (filter (fichier_reussi F type_traitement) fichiers) +
      length (filter (\<lambda>f. \<not> fichier_reussi F type_traitement f) fichiers) = length fichiers"
    by (rule sum_length_filter_compl)
  show "\<exists>sysfic' st. traiter_tous_fichiers F sysfic fichiers type_traitement = (sysfic', Some st) \<and>
         total st = length fichiers \<and>
         success st = length (filter (fichier_reussi F type_traitement) fichiers) \<and>
         errors st = length (filter (\<lambda>f. \<not> fichier_reussi F type_traitement f) fichiers) \<and>
         success st + errors st = length fichiers"
    using t b s by (intro exI [of _ "fst ?etat"] exI [of _ "snd ?etat"]) simp
qed

lemma fichier_exemple_reussi:
  "fichier_reussi float_ops_exemple ''maquette'' (fichier_exemple poutres)
     \<longleftrightarrow> filter (element_accepte float_ops_exemple) poutres \<noteq> []"
  by (simp add: fichier_reussi_def resultat_exemple)

lemma fichier_illisible_echoue:
  "\<not> fichier_reussi float_ops_exemple ''maquette'' fichier_illisible"
  by (simp add: fichier_reussi_def traiter_fichier_maquette_resultat fichier_illisible_def)

theorem echec_de_fichier_sans_abandon_witness:
  "status (snd (traiter_fichier_maquette float_ops_exemple [] fichier_illisible)) = ''error'' \<and>
   status (snd (traiter_fichier_maquette float_ops_exemple []
      (fichier_exemple [tl (element_reference reemploye)]))) = ''error'' \<and>
   (\<exists>sysfic' st.
      traiter_tous_fichiers float_ops_exemple []
        [fichier_illisible, fichier_exemple [tl (element_reference reemploye)],
         fichier_exemple [element_reference reemploye]] ''maquette'' = (sysfic', Some st) \<and>
      total st = 3 \<and> success st = 1 \<and> errors st = 2)"
proof -
  let ?bad = "fichier_exemple [tl (element_reference reemploye)]"
  let ?good = "fichier_exemple [element_reference reemploye]"
  note T1 = echec_de_fichier_sans_abandon [where F = float_ops_exemple and sysfic = "[]"
      and fichier = fichier_illisible and ex = "IfcError ''Unable to open file for reading''"
      and fichiers = "[fichier_illisible, ?bad, ?good]" and type_traitement = "''maquette''"]
  note T2 = echec_de_fichier_sans_abandon [where F = float_ops_exemple and sysfic = "[]"
      and fichier = ?bad and modele_ifc = "modele_exemple [tl (element_reference reemploye)]"
      and contenu = "contenu_fichier ?bad"
      and elements = "concat (map (by_type (modele_exemple [tl (element_reference reemploye)]))
          types_elements)"
      and fichiers = "[fichier_illisible, ?bad, ?good]" and type_traitement = "''maquette''"]
  have a: "ouverture fichier_illisible = Inl (IfcError ''Unable to open file for reading'')"
    by (simp add: fichier_illisible_def)
  have els: "concat (map (by_type (modele_exemple [tl (element_reference reemploye)]))
      types_elements) = [tl (element_reference reemploye)]"
    by (simp add: modele_exemple_def types_elements_def)
  have b: "ouverture ?bad = Inr (modele_exemple [tl (element_reference reemploye)]) \<and>
      fst (snd (foldl (traiter_element float_ops_exemple (contenu_fichier ?bad)) ([], 0, 0)
        (concat (map (by_type (modele_exemple [tl (element_reference reemploye)]))
           types_elements)))) = 0"
    using T2 [THEN conjunct2, THEN conjunct1] sans_NOM_refuse
    by (simp add: els fichier_exemple_def)
  have c: "[fichier_illisible, ?bad, ?good] \<noteq> []" by simp
  have 1: "status (snd (traiter_fichier_maquette float_ops_exemple [] fichier_illisible)) = ''error''"
    using T1 [THEN conjunct1, rule_format, OF a] by blast
  have 2: "status (snd (traiter_fichier_maquette float_ops_exemple [] ?bad)) = ''error''"
    using T2 [THEN conjunct2, THEN conjunct2, THEN conjunct1, rule_format, OF b] .
  have 3: "\<exists>sysfic' st.
      traiter_tous_fichiers float_ops_exemple [] [fichier_illisible, ?bad, ?good] ''maquette''
        = (sysfic', Some st) \<and>
      total st = 3 \<and> success st = 1 \<and> errors st = 2"
  proof -
    let ?fichiers = "[fichier_illisible, ?bad, ?good]"
    have r: "length (filter (fichier_reussi float_ops_exemple ''maquette'') ?fichiers) = 1"
      by (simp add: fichier_exemple_reussi fichier_illisible_echoue reference_acceptee
          sans_NOM_refuse)
    have e: "length (filter (\<lambda>f. \<not> fichier_reussi float_ops_exemple ''maquette'' f) ?fichiers) = 2"
      by (simp add: fichier_exemple_reussi fichier_illisible_echoue reference_acceptee
          sans_NOM_refuse)
    have l: "length ?fichiers = 3" by simp
    from T1 [THEN conjunct2, THEN conjunct2, THEN conjunct2, rule_format, OF c]
    show ?thesis unfolding r e l by blast
  qed
  from 1 2 3 show ?thesis by blast
qed


section \<open>The written document and the hashed text\<close>

text \<open>
  The digest stored as \<open>hash_json\<close> is the SHA-256 of the serialization with sorted
  keys of the record without that field, and these bytes are never the bytes of the
  indented document that is written to disk: the two texts differ at their second
  character.
\<close>

lemma join_Cons: "\<exists>rest. join sep (x # xs) = x @ rest"
  by (cases xs) auto

lemma dumps_sorted_debut:
  "\<exists>c rest. dumps_sorted F d = CHR ''{'' # c # rest \<and> (c = CHR 0x22 \<or> c = CHR ''}'')"
proof (cases "sort_key fst d")
  case Nil
  then show ?thesis by (simp add: dumps_sorted_def)
next
  case (Cons x xs)
  obtain rest where "join '', '' (map (json_item F) (x # xs)) = json_item F x @ rest"
    using join_Cons [of "'', ''" "json_item F x" "map (json_item F) xs"] by auto
  then show ?thesis
    using Cons by (simp add: dumps_sorted_def json_item_def json_string_def)
qed

lemma dumps_indent_debut:
  "d \<noteq> [] \<Longrightarrow> \<exists>rest. dumps_indent F d = CHR ''{'' # CHR 0x0A # rest"
  by (simp add: dumps_indent_def)

lemma encode_utf8_debut:
  "of_char c < (128 :: nat) \<Longrightarrow> of_char c' < (128 :: nat) \<Longrightarrow>
   encode_utf8 (c # c' # rest) = of_nat (of_char c) # of_nat (of_char c') # encode_utf8 rest"
  by (simp add: encode_utf8_def utf8_char_def)

lemma document_different:
  assumes "d \<noteq> []"
  shows "encode_utf8 (dumps_indent F d) \<noteq> encode_utf8 (dumps_sorted F d')"
proof -
  obtain r1 where 1: "dumps_indent F d = CHR ''{'' # CHR 0x0A # r1"
    using dumps_indent_debut [OF assms] by blast
  obtain c r2 where 2: "dumps_sorted F d' = CHR ''{'' # c # r2"
    and c: "c = CHR 0x22 \<or> c = CHR ''}''"
    using dumps_sorted_debut by blast
  have e1: "encode_utf8 (dumps_indent F d) = 123 # 10 # encode_utf8 r1"
    unfolding 1 by (simp add: encode_utf8_debut)
  have e2: "encode_utf8 (dumps_sorted F d') = 123 # 34 # encode_utf8 r2 \<or>
      encode_utf8 (dumps_sorted F d') = 123 # 125 # encode_utf8 r2"
    unfolding 2 using c by (auto simp: encode_utf8_debut)
  show ?thesis unfolding e1 using e2 by auto
qed

lemma dict_set_non_vide: "dict_set d k v \<noteq> []"
  by (induction d k v rule: dict_set.induct) simp_all

lemma hash_json_et_document:
  assumes "extraire_toutes_proprietes_element F element = Inr (proprietes, erreurs)"
  shows "dict_get (ajouter_hashs F contenu proprietes) ''hash_json''
      = Some (VStr (sha256_hex (encode_utf8 (dumps_sorted F
          (filter (\<lambda>kv. fst kv \<noteq> ''hash_json'') (ajouter_hashs F contenu proprietes))))))"
    and "encode_utf8 (dumps_indent F (ajouter_hashs F contenu proprietes))
      \<noteq> encode_utf8 (dumps_sorted F
          (filter (\<lambda>kv. fst kv \<noteq> ''hash_json'') (ajouter_hashs F contenu proprietes)))"
proof -
  note e = extraire_Inr [OF assms]
  have p: "proprietes = map (entree_du_champ F element) parametres_obligatoires"
    using e by simp
  have k: "''hash_json'' \<notin> set (map fst proprietes)"
    unfolding p cles_proprietes by (rule hash_json_pas_un_champ)
  have ne: "''hash_ifc'' \<noteq> ''hash_json''" by simp
  note d = deux_passes_dict [OF k ne]
  have f: "filter (\<lambda>kv. fst kv \<noteq> ''hash_json'') (ajouter_hashs F contenu proprietes)
        = dict_set proprietes ''hash_ifc'' (VStr (sha256_hex contenu))"
    using d(3) by (simp add: ajouter_hashs_def calculer_hash_fichier_def Let_def)
  show "dict_get (ajouter_hashs F contenu proprietes) ''hash_json''
      = Some (VStr (sha256_hex (encode_utf8 (dumps_sorted F
          (filter (\<lambda>kv. fst kv \<noteq> ''hash_json'') (ajouter_hashs F contenu proprietes))))))"
    unfolding f using d(2)
    by (simp add: ajouter_hashs_def calculer_hash_fichier_def calculer_hash_json_def Let_def)
  have "ajouter_hashs F contenu proprietes \<noteq> []"
    by (simp add: ajouter_hashs_def Let_def dict_set_non_vide)
  then show "encode_utf8 (dumps_indent F (ajouter_hashs F contenu proprietes))
      \<noteq> encode_utf8 (dumps_sorted F
          (filter (\<lambda>kv. fst kv \<noteq> ''hash_json'') (ajouter_hashs F contenu proprietes)))"
    by (rule document_different)
qed

text \<open>The date validator of the earlier extractor knows the hyphenated layout only.\<close>

lemma r9_date_espaces: "\<not> r9_valider_format_date ''13 01 2011''"
  by code_simp

lemma r9_date_tirets: "r9_valider_format_date ''13-01-2011''"
  by code_simp


end
